theory Spec2Isabelle
  imports Complex_Main
begin

section \<open>Values of the object model\<close>

text \<open>
  The control of \<^verbatim>\<open>dev/TabView/TabView.cpp\<close> works on reference-counted
  objects reached through nullable references. An object is identified by a reference;
  a nullable reference is a \<open>ref option\<close> with \<open>None\<close> for \<^verbatim>\<open>nullptr\<close>.
\<close>

type_synonym ref = nat

text \<open>
  The runtime classes the code queries for with \<^verbatim>\<open>as<T>()\<close> and
  \<^verbatim>\<open>try_as<T>()\<close>. A \<open>TabViewItem\<close> is a \<open>ListViewItem\<close>, these two
  and a \<open>RepeatButton\<close> are framework elements, and everything is an \<open>Inspectable\<close>.
\<close>

datatype runtime_class = TabViewItem | ListViewItem | RepeatButton | FrameworkElement | Inspectable

fun derives :: "runtime_class \<Rightarrow> runtime_class \<Rightarrow> bool" where
  "derives c Inspectable = True"
| "derives c FrameworkElement = (c \<noteq> Inspectable)"
| "derives c ListViewItem = (c = ListViewItem \<or> c = TabViewItem)"
| "derives c TabViewItem = (c = TabViewItem)"
| "derives c RepeatButton = (c = RepeatButton)"

datatype visibility = Visible | Collapsed

text \<open>
  A \<^verbatim>\<open>double\<close>. A finite value is the real it stands for, and every operation
  rounds its result to a double (see below); the infinities and NaN are kept because
  \<^verbatim>\<open>UpdateTabWidths\<close> starts from NaN and divides by the number of tabs, which may
  be zero.
\<close>

datatype double = Finite real | PosInf | NegInf | NaN

record element =
  rtclass :: runtime_class
  IsEnabled :: bool
  Visibility :: visibility
  IsSelected :: bool
  IsClosable :: bool
  Width :: double
  Content :: "ref option"
  Parent :: "ref option"

type_synonym heap = "ref \<Rightarrow> element"

datatype error = hresult_no_interface | hresult_out_of_bounds | null_dereference

text \<open>
  \<^verbatim>\<open>x.try_as<T>()\<close> gives null for a null \<open>x\<close> and for an object that is not a
  \<open>T\<close>. \<^verbatim>\<open>x.as<T>()\<close> gives null for a null \<open>x\<close> too, and throws
  \<^verbatim>\<open>hresult_no_interface\<close> for an object that is not a \<open>T\<close>.
\<close>

fun try_as :: "heap \<Rightarrow> runtime_class \<Rightarrow> ref option \<Rightarrow> ref option" where
  "try_as h t None = None"
| "try_as h t (Some r) = (if derives (rtclass (h r)) t then Some r else None)"

fun as_class :: "heap \<Rightarrow> runtime_class \<Rightarrow> ref option \<Rightarrow> error + ref option" where
  "as_class h t None = Inr None"
| "as_class h t (Some r) = (if derives (rtclass (h r)) t then Inr (Some r) else Inl hresult_no_interface)"

text \<open>\<^verbatim>\<open>IVector::GetAt\<close> throws when the index is out of bounds.\<close>

definition GetAt :: "'a list \<Rightarrow> int \<Rightarrow> error + 'a" where
  "GetAt xs i = (if 0 \<le> i \<and> i < int (length xs) then Inr (xs ! nat i) else Inl hresult_out_of_bounds)"

text \<open>The \<^verbatim>\<open>%\<close> of C++ on \<^verbatim>\<open>int\<close>: the remainder of the division that truncates towards zero.\<close>

definition cpp_rem :: "int \<Rightarrow> int \<Rightarrow> int" where
  "cpp_rem a b = sgn a * (\<bar>a\<bar> mod \<bar>b\<bar>)"

text \<open>
  \<^verbatim>\<open>static_cast<int>\<close> of a \<^verbatim>\<open>uint32_t\<close> size or index: the value read as
  two's complement on 32 bits.
\<close>

definition static_cast_int :: "nat \<Rightarrow> int" where
  "static_cast_int n =
     (let m = int n mod 2 ^ 32 in if m < 2 ^ 31 then m else m - 2 ^ 32)"

text \<open>
  Arithmetic on \<^verbatim>\<open>int\<close> is on 32 bits. The overflow of a signed sum is undefined in
  C++; the compiled code wraps around in two's complement, and so does the model.
\<close>

definition int32_wrap :: "int \<Rightarrow> int" where
  "int32_wrap x = (x + 2 ^ 31) mod 2 ^ 32 - 2 ^ 31"

subsection \<open>Rounding\<close>

text \<open>
  An operation on doubles gives the exact result rounded to the nearest double, ties to
  the even one. \<open>round_to_precision p emin\<close> is this rounding for a format of \<open>p\<close>
  significant bits whose least normal exponent is \<open>emin\<close>: the result is a multiple of
  the unit in the last place of the operand's binade, or of the least binade for a
  subnormal. A \<^verbatim>\<open>double\<close> has 53 bits from the exponent -1022, a \<^verbatim>\<open>float\<close>
  24 bits from -126. Where the machine overflows to an infinity the model keeps the
  finite value; the widths of a control are far from that.
\<close>

function bit_length :: "nat \<Rightarrow> nat" where
  "bit_length n = (if n = 0 then 0 else Suc (bit_length (n div 2)))"
  by pat_completeness auto
termination
  by (relation "measure (\<lambda>n. n)") auto

declare bit_length.simps [simp del]

text \<open>The \<open>e\<close> with \<open>2 ^ e \<le> x < 2 ^ (e + 1)\<close>, for a positive \<open>x\<close>.\<close>

definition binary_exponent :: "real \<Rightarrow> int" where
  "binary_exponent x =
     (if 1 \<le> x then int (bit_length (nat \<lfloor>x\<rfloor>)) - 1
      else - int (bit_length (nat (\<lceil>1 / x\<rceil> - 1))))"

definition power_of_two :: "int \<Rightarrow> real" where
  "power_of_two e = (if 0 \<le> e then 2 ^ nat e else 1 / 2 ^ nat (- e))"

definition round_half_even :: "real \<Rightarrow> int" where
  "round_half_even q =
     (let f = \<lfloor>q\<rfloor>
      in if q - of_int f < 1 / 2 then f
         else if 1 / 2 < q - of_int f then f + 1
         else if even f then f else f + 1)"

definition round_to_precision :: "nat \<Rightarrow> int \<Rightarrow> real \<Rightarrow> real" where
  "round_to_precision p emin x =
     (if x = 0 then 0
      else (let ulp = power_of_two (max (binary_exponent \<bar>x\<bar>) emin - (int p - 1))
            in sgn x * (of_int (round_half_even (\<bar>x\<bar> / ulp)) * ulp)))"

definition round_double :: "real \<Rightarrow> real" where
  "round_double x = round_to_precision 53 (- 1022) x"

text \<open>\<^verbatim>\<open>static_cast<float>\<close> of a double.\<close>

definition round_float :: "real \<Rightarrow> real" where
  "round_float x = round_to_precision 24 (- 126) x"

subsection \<open>Arithmetic on doubles\<close>

text \<open>
  The sum, the difference and the product of two finite doubles \<open>x\<close> and \<open>y\<close> are
  \<open>round_double (x + y)\<close>, \<open>round_double (x - y)\<close> and \<open>round_double (x * y)\<close>.
\<close>

fun double_less :: "double \<Rightarrow> double \<Rightarrow> bool" where
  "double_less NaN b = False"
| "double_less a NaN = False"
| "double_less (Finite x) (Finite y) = (x < y)"
| "double_less (Finite x) PosInf = True"
| "double_less (Finite x) NegInf = False"
| "double_less PosInf b = False"
| "double_less NegInf NegInf = False"
| "double_less NegInf b = True"

fun double_ge :: "double \<Rightarrow> double \<Rightarrow> bool" where
  "double_ge NaN b = False"
| "double_ge a NaN = False"
| "double_ge (Finite x) (Finite y) = (x \<ge> y)"
| "double_ge (Finite x) PosInf = False"
| "double_ge (Finite x) NegInf = True"
| "double_ge PosInf b = True"
| "double_ge NegInf NegInf = True"
| "double_ge NegInf b = False"

text \<open>\<^verbatim>\<open>x / (double)(n)\<close> for a finite \<open>x\<close> and a size \<open>n\<close>.\<close>

definition divide_by_size :: "real \<Rightarrow> nat \<Rightarrow> double" where
  "divide_by_size x n =
     (if n = 0 then (if x > 0 then PosInf else if x < 0 then NegInf else NaN)
      else Finite (round_double (x / real n)))"

text \<open>\<^verbatim>\<open>w * n\<close> for a double \<open>w\<close> and a size \<open>n\<close>.\<close>

fun times_size :: "double \<Rightarrow> nat \<Rightarrow> double" where
  "times_size (Finite x) n = Finite (round_double (x * real n))"
| "times_size NaN n = NaN"
| "times_size PosInf n = (if n = 0 then NaN else PosInf)"
| "times_size NegInf n = (if n = 0 then NaN else NegInf)"

text \<open>\<^verbatim>\<open>std::clamp(v, lo, hi)\<close> is \<^verbatim>\<open>(v < lo) ? lo : (hi < v) ? hi : v\<close>.\<close>

definition std_clamp :: "double \<Rightarrow> double \<Rightarrow> double \<Rightarrow> double" where
  "std_clamp v lo hi = (if double_less v lo then lo else if double_less hi v then hi else v)"

section \<open>The host list and the template parts\<close>

datatype scroll_bar_visibility = ScrollBar_Disabled | ScrollBar_Auto | ScrollBar_Hidden | ScrollBar_Visible

datatype grid_unit_type = Auto | Pixel | Star

datatype grid_length = GridLength real grid_unit_type

definition FromPixels :: "real \<Rightarrow> grid_length" where
  "FromPixels w = GridLength w Pixel"

definition FromValueAndType :: "real \<Rightarrow> grid_unit_type \<Rightarrow> grid_length" where
  "FromValueAndType v t = GridLength v t"

type_synonym rect = "real \<times> real \<times> real \<times> real"

text \<open>
  The host list (\<^verbatim>\<open>ListView\<close>) is a collaborator of the control, not part of it.
  Its container resolution is taken as it is given: the four lookup functions are
  fields of the list's state, and so is its transform to screen coordinates.
\<close>

record list_view =
  lv_ContainerFromItem :: "ref option \<Rightarrow> ref option"
  lv_ContainerFromIndex :: "int \<Rightarrow> ref option"
  lv_ItemFromContainer :: "ref option \<Rightarrow> ref option"
  lv_IndexFromContainer :: "ref option \<Rightarrow> int"
  lv_SelectedIndex :: int
  lv_SelectedItem :: "ref option"
  lv_MaxWidth :: real
  lv_HorizontalScrollBarVisibility :: scroll_bar_visibility
  lv_ActualWidth :: real
  lv_ActualHeight :: real
  lv_TransformBounds :: "rect \<Rightarrow> rect"

record column_definition =
  cd_ActualWidth :: real
  cd_MinWidth :: real
  cd_MaxWidth :: real
  cd_Width :: grid_length

record content_presenter =
  cp_DesiredSize_Width :: real

text \<open>
  The scroll viewer of the host list. \<open>sv_FindInVisualTreeByName\<close> is what
  \<^verbatim>\<open>SharedHelpers::FindInVisualTreeByName(scrollViewer, name)\<close> finds: a descendant
  with that name, or null.
\<close>

record scroll_viewer =
  sv_FindInVisualTreeByName :: "string \<Rightarrow> ref option"
  sv_HorizontalOffset :: real
  sv_ScrollableWidth :: real

datatype tab_view_width_mode = SizeToContent | Equal

text \<open>
  \<^verbatim>\<open>TabItemsSource\<close> is an \<^verbatim>\<open>IInspectable\<close>: an object that is iterable over
  its elements, or one that is not.
\<close>

datatype items_source = Iterable "ref list" | NotIterable

datatype focus_navigation_direction = Dir_Previous | Dir_Next | Dir_Up | Dir_Down | Dir_Left | Dir_Right | Dir_None

datatype focus_input_device_kind = Dev_None | Dev_Mouse | Dev_Touch | Dev_Pen | Dev_Keyboard | Dev_GameController

record getting_focus_event_args =
  Direction :: focus_navigation_direction
  OldFocusedElement :: "ref option"
  NewFocusedElement :: "ref option"
  InputDevice :: focus_input_device_kind
  is_IGettingFocusEventArgs2 :: bool
  TrySetNewFocusedElement :: "ref option list"
  Cancel :: bool
  Handled :: bool

text \<open>
  \<^verbatim>\<open>DataPackageOperation\<close> is a flags enumeration over \<^verbatim>\<open>uint32\<close>;
  \<^verbatim>\<open>None\<close> is 0.
\<close>

type_synonym data_package_operation = nat

definition DataPackageOperation_None :: data_package_operation where
  "DataPackageOperation_None = 0"

datatype collection_change = Reset | ItemInserted | ItemRemoved | ItemChanged

record vector_changed_event_args =
  CollectionChange :: collection_change
  Index :: nat

record drag_items_completed_event_args =
  Items :: "ref list"
  DropResult :: data_package_operation

text \<open>What the control raises on its event sources and calls on its tabs, in order.\<close>

datatype event =
    TabCloseRequested "ref option" "ref option"
  | RaiseRequestClose ref "ref option" "ref option"
  | TabDragCompleted drag_items_completed_event_args ref "ref option"
  | TabDroppedOutside ref "ref option"

section \<open>The state of the control\<close>

record tab_view =
  objects :: heap
  m_listView :: "list_view option"
  m_tabContainerGrid :: bool
  m_leftContentColumn :: "column_definition option"
  m_tabColumn :: "column_definition option"
  m_addButtonColumn :: "column_definition option"
  m_rightContentColumn :: "column_definition option"
  m_rightContentPresenter :: "content_presenter option"
  m_scrollViewer :: "scroll_viewer option"
  m_scrollDecreaseClickRevoker :: "ref option"
  m_scrollIncreaseClickRevoker :: "ref option"
  TabItems :: "ref list"
  TabItemsSource :: "items_source option"
  SelectedIndex :: int
  SelectedItem :: "ref option"
  TabWidthMode :: tab_view_width_mode
  ActualWidth :: real
  Padding_Left :: real
  Padding_Right :: real
  TabViewItemMinWidth :: "real option"
  TabViewItemMaxWidth :: "real option"
  FindNextElement :: "focus_navigation_direction \<Rightarrow> rect \<Rightarrow> ref option"
  async_SetFocus :: "ref option list"
  raised :: "event list"

subsection \<open>Container lookups\<close>

definition ContainerFromItem :: "tab_view \<Rightarrow> ref option \<Rightarrow> ref option" where
  "ContainerFromItem s item =
     (case m_listView s of Some listView \<Rightarrow> lv_ContainerFromItem listView item | None \<Rightarrow> None)"

definition ContainerFromIndex :: "tab_view \<Rightarrow> int \<Rightarrow> ref option" where
  "ContainerFromIndex s index =
     (case m_listView s of Some listView \<Rightarrow> lv_ContainerFromIndex listView index | None \<Rightarrow> None)"

definition ItemFromContainer :: "tab_view \<Rightarrow> ref option \<Rightarrow> ref option" where
  "ItemFromContainer s container =
     (case m_listView s of Some listView \<Rightarrow> lv_ItemFromContainer listView container | None \<Rightarrow> None)"

subsection \<open>Selection\<close>

definition UpdateSelectedIndex :: "tab_view \<Rightarrow> tab_view" where
  "UpdateSelectedIndex s =
     (case m_listView s of
        Some listView \<Rightarrow> s\<lparr>m_listView := Some (listView\<lparr>lv_SelectedIndex := SelectedIndex s\<rparr>)\<rparr>
      | None \<Rightarrow> s)"

definition UpdateSelectedItem :: "tab_view \<Rightarrow> tab_view" where
  "UpdateSelectedItem s =
     (case m_listView s of
        Some listView \<Rightarrow>
          (let tvi = try_as (objects s) TabViewItem (SelectedItem s);
               tvi = (if tvi = None
                      then try_as (objects s) TabViewItem (ContainerFromItem s (SelectedItem s))
                      else tvi)
           in case tvi of
                Some t \<Rightarrow>
                  s\<lparr>m_listView := Some (listView\<lparr>lv_SelectedItem := Some t\<rparr>),
                    objects := (objects s)(t := (objects s t)\<lparr>IsSelected := True\<rparr>)\<rparr>
              | None \<Rightarrow> s)
      | None \<Rightarrow> s)"

text \<open>
  Modelled from the spec: the setters of the dependency properties \<^verbatim>\<open>SelectedIndex\<close>
  and \<^verbatim>\<open>SelectedItem\<close> (generated property code, absent from the sources). The
  spec's \<open>setSelectedIndex(i)\<close> pushes \<open>i\<close> into the host list if it exists, and its
  \<open>setSelectedItem(item)\<close> resolves the item and selects its container: the setter
  stores the value and runs the property-changed handler of the source
  (\<^verbatim>\<open>OnSelectedIndexPropertyChanged\<close>, \<^verbatim>\<open>OnSelectedItemPropertyChanged\<close>).
  What the host list does when its selection is written, its own selection-changed
  notification among it, is the host list's and is not part of these functions.
\<close>

definition OnSelectedIndexPropertyChanged :: "tab_view \<Rightarrow> tab_view" where
  "OnSelectedIndexPropertyChanged s = UpdateSelectedIndex s"

definition OnSelectedItemPropertyChanged :: "tab_view \<Rightarrow> tab_view" where
  "OnSelectedItemPropertyChanged s = UpdateSelectedItem s"

definition set_SelectedIndex :: "int \<Rightarrow> tab_view \<Rightarrow> tab_view" where
  "set_SelectedIndex i s = OnSelectedIndexPropertyChanged (s\<lparr>SelectedIndex := i\<rparr>)"

definition set_SelectedItem :: "ref option \<Rightarrow> tab_view \<Rightarrow> tab_view" where
  "set_SelectedItem item s = OnSelectedItemPropertyChanged (s\<lparr>SelectedItem := item\<rparr>)"

subsection \<open>Counting the items and moving the selection\<close>

text \<open>
  An \<^verbatim>\<open>IIterator\<close> over a sequence is the list of the elements from the current one
  on. \<^verbatim>\<open>First()\<close> stands on the first element; \<^verbatim>\<open>MoveNext()\<close> steps to the
  next element and tells whether there is one.
\<close>

type_synonym iterator = "ref list"

definition First :: "ref list \<Rightarrow> iterator" where
  "First xs = xs"

definition MoveNext :: "iterator \<Rightarrow> bool \<times> iterator" where
  "MoveNext iter = (tl iter \<noteq> [], tl iter)"

function GetItemCount_loop :: "int \<Rightarrow> iterator \<Rightarrow> int" where
  "GetItemCount_loop i iter =
     (if fst (MoveNext iter) then GetItemCount_loop (i + 1) (snd (MoveNext iter)) else i)"
  by pat_completeness auto
termination
proof (relation "measure (\<lambda>(i, iter). length iter)")
  fix i :: int and iter :: iterator
  assume "fst (MoveNext iter)"
  then have "iter \<noteq> []"
    by (auto simp: MoveNext_def)
  then show "((i + 1, snd (MoveNext iter)), (i, iter)) \<in> measure (\<lambda>(i, iter). length iter)"
    by (cases iter) (simp_all add: MoveNext_def)
qed simp

declare GetItemCount_loop.simps [simp del]

definition GetItemCount :: "tab_view \<Rightarrow> int" where
  "GetItemCount s =
     (case TabItemsSource s of
        Some itemssource \<Rightarrow>
          (case itemssource of
             Iterable iterable \<Rightarrow> GetItemCount_loop 1 (First iterable)
           | NotIterable \<Rightarrow> 0)
      | None \<Rightarrow> static_cast_int (length (TabItems s)))"

text \<open>
  The sum \<^verbatim>\<open>index + increment + itemsSize\<close> is two additions on 32 bits, from left to
  right.
\<close>

definition SelectNextTab :: "int \<Rightarrow> tab_view \<Rightarrow> bool \<times> tab_view" where
  "SelectNextTab increment s =
     (let itemsSize = GetItemCount s
      in if itemsSize > 1
         then (let index = SelectedIndex s;
                   index = cpp_rem (int32_wrap (int32_wrap (index + increment) + itemsSize)) itemsSize
               in (True, set_SelectedIndex index s))
         else (False, s))"

section \<open>Tab widths\<close>

definition c_tabMinimumWidth :: real where
  "c_tabMinimumWidth = 48"

definition c_tabMaximumWidth :: real where
  "c_tabMaximumWidth = 200"

text \<open>
  Modelled from the spec: \<^verbatim>\<open>SharedHelpers::FindResource\<close> (absent from the sources),
  the numeric resource lookup by key with a caller-supplied default. The resource of a
  key is a field of the state, \<open>None\<close> when the application defines none.
\<close>

definition FindResource :: "real option \<Rightarrow> real \<Rightarrow> real" where
  "FindResource resource defaultValue = (case resource of Some v \<Rightarrow> v | None \<Rightarrow> defaultValue)"

text \<open>
  Lines 485 to 502 of \<^verbatim>\<open>UpdateTabWidths\<close>: the width taken by the custom content and
  the add button. The minimum width of the right content column is set on the way.
\<close>

definition UpdateTabWidths_widthTaken :: "tab_view \<Rightarrow> real \<times> tab_view" where
  "UpdateTabWidths_widthTaken s =
     (let widthTaken = 0;
          widthTaken = (case m_leftContentColumn s of
                          Some leftContentColumn \<Rightarrow>
                            round_double (widthTaken + cd_ActualWidth leftContentColumn)
                        | None \<Rightarrow> widthTaken);
          widthTaken = (case m_addButtonColumn s of
                          Some addButtonColumn \<Rightarrow>
                            round_double (widthTaken + cd_ActualWidth addButtonColumn)
                        | None \<Rightarrow> widthTaken)
      in case m_rightContentColumn s of
           Some rightContentColumn \<Rightarrow>
             (case m_rightContentPresenter s of
                Some rightContentPresenter \<Rightarrow>
                  (let rightContentSize_Width = cp_DesiredSize_Width rightContentPresenter
                   in (round_double (widthTaken + rightContentSize_Width),
                       s\<lparr>m_rightContentColumn :=
                            Some (rightContentColumn\<lparr>cd_MinWidth := rightContentSize_Width\<rparr>)\<rparr>))
              | None \<Rightarrow> (widthTaken, s))
         | None \<Rightarrow> (widthTaken, s))"

definition SetHorizontalScrollBarVisibility :: "scroll_bar_visibility \<Rightarrow> tab_view \<Rightarrow> tab_view" where
  "SetHorizontalScrollBarVisibility v s =
     (case m_listView s of
        Some listview \<Rightarrow> s\<lparr>m_listView := Some (listview\<lparr>lv_HorizontalScrollBarVisibility := v\<rparr>)\<rparr>
      | None \<Rightarrow> s)"

text \<open>
  Lines 480 to 551: the local \<^verbatim>\<open>tabWidth\<close> and the state with the tab column and
  the host list updated.
\<close>

definition UpdateTabWidths_layout :: "tab_view \<Rightarrow> double \<times> tab_view" where
  "UpdateTabWidths_layout s0 =
     (let tabWidth = NaN
      in if m_tabContainerGrid s0
         then
           (case UpdateTabWidths_widthTaken s0 of
              (widthTaken, s) \<Rightarrow>
                (case m_tabColumn s of
                   Some tabColumn \<Rightarrow>
                     (let availableWidth = round_double (ActualWidth s - widthTaken)
                      in case TabWidthMode s of
                           SizeToContent \<Rightarrow>
                             (let tabColumn = tabColumn\<lparr>cd_MaxWidth := availableWidth\<rparr>;
                                  tabColumn = tabColumn\<lparr>cd_Width := FromValueAndType 1 Auto\<rparr>;
                                  s = s\<lparr>m_tabColumn := Some tabColumn\<rparr>
                              in case m_listView s of
                                   Some listview \<Rightarrow>
                                     (tabWidth,
                                      s\<lparr>m_listView :=
                                           Some (listview\<lparr>lv_MaxWidth := availableWidth,
                                                   lv_HorizontalScrollBarVisibility := ScrollBar_Auto\<rparr>)\<rparr>)
                                 | None \<Rightarrow> (tabWidth, s))
                         | Equal \<Rightarrow>
                             (let minTabWidth = FindResource (TabViewItemMinWidth s) c_tabMinimumWidth;
                                  maxTabWidth = FindResource (TabViewItemMaxWidth s) c_tabMaximumWidth;
                                  tabWidthForScroller =
                                    divide_by_size
                                      (round_double
                                         (availableWidth - round_double (Padding_Left s + Padding_Right s)))
                                      (length (TabItems s));
                                  tabWidth = std_clamp tabWidthForScroller (Finite minTabWidth) (Finite maxTabWidth);
                                  tabColumn = tabColumn\<lparr>cd_MaxWidth := availableWidth\<rparr>;
                                  requiredWidth = times_size tabWidth (length (TabItems s))
                              in if double_ge requiredWidth (Finite availableWidth)
                                 then (tabWidth,
                                       SetHorizontalScrollBarVisibility ScrollBar_Visible
                                         (s\<lparr>m_tabColumn :=
                                              Some (tabColumn\<lparr>cd_Width := FromPixels availableWidth\<rparr>)\<rparr>))
                                 else (tabWidth,
                                       SetHorizontalScrollBarVisibility ScrollBar_Hidden
                                         (s\<lparr>m_tabColumn :=
                                              Some (tabColumn\<lparr>cd_Width := FromValueAndType 1 Auto\<rparr>)\<rparr>))))
                 | None \<Rightarrow> (tabWidth, s)))
         else (tabWidth, s0))"

text \<open>Lines 553 to 566: the width is set on the tab of every item that resolves to one.\<close>

fun UpdateTabWidths_items :: "double \<Rightarrow> ref list \<Rightarrow> tab_view \<Rightarrow> error + tab_view" where
  "UpdateTabWidths_items tabWidth [] s = Inr s"
| "UpdateTabWidths_items tabWidth (item # items) s =
     (let tvi = try_as (objects s) TabViewItem (Some item)
      in case (if tvi = None
               then as_class (objects s) TabViewItem (ContainerFromItem s (Some item))
               else Inr tvi) of
           Inl e \<Rightarrow> Inl e
         | Inr tvi \<Rightarrow>
             UpdateTabWidths_items tabWidth items
               (case tvi of
                  Some t \<Rightarrow> s\<lparr>objects := (objects s)(t := (objects s t)\<lparr>Width := tabWidth\<rparr>)\<rparr>
                | None \<Rightarrow> s))"

definition UpdateTabWidths :: "tab_view \<Rightarrow> error + tab_view" where
  "UpdateTabWidths s =
     (case UpdateTabWidths_layout s of
        (tabWidth, s1) \<Rightarrow> UpdateTabWidths_items tabWidth (TabItems s1) s1)"

section \<open>Reselecting after a removal\<close>

text \<open>
  \<^verbatim>\<open>OnItemsChanged\<close> is given the arguments of the vector-changed notification.
  First the \<^verbatim>\<open>do ... while (index != startIndex)\<close> of the handler, entered with
  \<open>index\<close>. Nothing in the loop itself bounds the number of rounds, so the result is
  an option: \<open>None\<close> stands for a loop that does not end.
\<close>

partial_function (option) OnItemsChanged_loop ::
  "int \<Rightarrow> int \<Rightarrow> int \<Rightarrow> tab_view \<Rightarrow> (error + tab_view) option" where
  "OnItemsChanged_loop numItems startIndex index s =
     (case as_class (objects s) ListViewItem (ContainerFromIndex s index) of
        Inl e \<Rightarrow> Some (Inl e)
      | Inr nextItem \<Rightarrow>
          if (case nextItem of
                Some n \<Rightarrow> IsEnabled (objects s n) \<and> Visibility (objects s n) = Visible
              | None \<Rightarrow> False)
          then (case GetAt (TabItems s) index of
                  Inl e \<Rightarrow> Some (Inl e)
                | Inr item \<Rightarrow> Some (Inr (set_SelectedItem (Some item) s)))
          else (let index = index + 1;
                    index = (if index \<ge> numItems then 0 else index)
                in if index \<noteq> startIndex
                   then OnItemsChanged_loop numItems startIndex index s
                   else Some (Inr s)))"

definition OnItemsChanged ::
  "vector_changed_event_args \<Rightarrow> tab_view \<Rightarrow> (error + tab_view) option" where
  "OnItemsChanged args s =
     (let numItems = static_cast_int (length (TabItems s))
      in case (if CollectionChange args = ItemRemoved \<and> numItems > 0
               then (let selectedIndex = SelectedIndex s
                     in if selectedIndex = - 1 \<or> selectedIndex = static_cast_int (Index args)
                        then (let startIndex = static_cast_int (Index args);
                                  startIndex = (if startIndex \<ge> numItems then numItems - 1 else startIndex);
                                  index = startIndex
                              in OnItemsChanged_loop numItems startIndex index s)
                        else Some (Inr s))
               else Some (Inr s)) of
           None \<Rightarrow> None
         | Some (Inl e) \<Rightarrow> Some (Inl e)
         | Some (Inr s1) \<Rightarrow> Some (UpdateTabWidths s1))"

section \<open>Closing the current tab\<close>

definition RequestCloseTab :: "ref option \<Rightarrow> tab_view \<Rightarrow> tab_view" where
  "RequestCloseTab container s =
     (case m_listView s of
        Some listView \<Rightarrow>
          (let args_Item = lv_ItemFromContainer listView container;
               args_Tab = container;
               s = s\<lparr>raised := raised s @ [TabCloseRequested args_Item args_Tab]\<rparr>
           in case container of
                Some internalTabViewItem \<Rightarrow>
                  s\<lparr>raised := raised s @ [RaiseRequestClose internalTabViewItem args_Item args_Tab]\<rparr>
              | None \<Rightarrow> s)
      | None \<Rightarrow> s)"

definition RequestCloseCurrentTab :: "tab_view \<Rightarrow> bool \<times> tab_view" where
  "RequestCloseCurrentTab s =
     (let handled = False
      in case try_as (objects s) TabViewItem (SelectedItem s) of
           Some selectedTab \<Rightarrow>
             if IsClosable (objects s selectedTab)
             then (True, RequestCloseTab (Some selectedTab) s)
             else (handled, s)
         | None \<Rightarrow> (handled, s))"

text \<open>The first component is the value given to \<^verbatim>\<open>args.Handled\<close>.\<close>

definition OnCtrlF4Invoked :: "tab_view \<Rightarrow> bool \<times> tab_view" where
  "OnCtrlF4Invoked s = RequestCloseCurrentTab s"

definition OnCtrlTabInvoked :: "tab_view \<Rightarrow> bool \<times> tab_view" where
  "OnCtrlTabInvoked s = SelectNextTab 1 s"

definition OnCtrlShiftTabInvoked :: "tab_view \<Rightarrow> bool \<times> tab_view" where
  "OnCtrlShiftTabInvoked s = SelectNextTab (- 1) s"

section \<open>Relaying the drag of a tab\<close>

text \<open>
  The fallback scan of \<^verbatim>\<open>FindTabViewItemFromDragItem\<close>. \<^verbatim>\<open>tabItem.Content()\<close> is
  called on the result of \<^verbatim>\<open>try_as\<close> as it comes, so a container that is null or
  no tab is a null dereference.
\<close>

function FindTabViewItemFromDragItem_loop :: "ref \<Rightarrow> int \<Rightarrow> int \<Rightarrow> tab_view \<Rightarrow> error + ref option" where
  "FindTabViewItemFromDragItem_loop item numItems i s =
     (if i < numItems
      then (case try_as (objects s) TabViewItem (ContainerFromIndex s i) of
              Some tabItem \<Rightarrow>
                if Content (objects s tabItem) = Some item
                then Inr (Some tabItem)
                else FindTabViewItemFromDragItem_loop item numItems (i + 1) s
            | None \<Rightarrow> Inl null_dereference)
      else Inr None)"
  by pat_completeness auto
termination
  by (relation "measure (\<lambda>(item, numItems, i, s). nat (numItems - i))") auto

declare FindTabViewItemFromDragItem_loop.simps [simp del]

definition FindTabViewItemFromDragItem :: "ref \<Rightarrow> tab_view \<Rightarrow> error + ref option" where
  "FindTabViewItemFromDragItem item s =
     (let tab = try_as (objects s) TabViewItem (ContainerFromItem s (Some item));
          tab = (if tab = None
                 then (case try_as (objects s) FrameworkElement (Some item) of
                         Some fe \<Rightarrow> try_as (objects s) TabViewItem (Parent (objects s fe))
                       | None \<Rightarrow> tab)
                 else tab)
      in if tab = None
         then (let numItems = static_cast_int (length (TabItems s))
               in FindTabViewItemFromDragItem_loop item numItems 0 s)
         else Inr tab)"

definition OnListViewDragItemsCompleted ::
  "drag_items_completed_event_args \<Rightarrow> tab_view \<Rightarrow> error + tab_view" where
  "OnListViewDragItemsCompleted args s =
     (case GetAt (Items args) 0 of
        Inl e \<Rightarrow> Inl e
      | Inr item \<Rightarrow>
          (case FindTabViewItemFromDragItem item s of
             Inl e \<Rightarrow> Inl e
           | Inr tab \<Rightarrow>
               (let s = s\<lparr>raised := raised s @ [TabDragCompleted args item tab]\<rparr>
                in if DropResult args = DataPackageOperation_None
                   then Inr (s\<lparr>raised := raised s @ [TabDroppedOutside item tab]\<rparr>)
                   else Inr s)))"

section \<open>Focus navigation between tabs\<close>

definition OnListViewGettingFocus ::
  "getting_focus_event_args \<Rightarrow> tab_view \<Rightarrow> getting_focus_event_args \<times> tab_view" where
  "OnListViewGettingFocus args s =
     (let direction = Direction args
      in if direction = Dir_Up \<or> direction = Dir_Down
         then
           (let oldItem = try_as (objects s) TabViewItem (OldFocusedElement args);
                newItem = try_as (objects s) TabViewItem (NewFocusedElement args)
            in if oldItem \<noteq> None \<and> newItem \<noteq> None
               then
                 (case m_listView s of
                    Some listView \<Rightarrow>
                      (let oldItemIsFromThisTabView = (lv_IndexFromContainer listView oldItem \<noteq> - 1);
                           newItemIsFromThisTabView = (lv_IndexFromContainer listView newItem \<noteq> - 1)
                       in if oldItemIsFromThisTabView \<and> newItemIsFromThisTabView
                          then
                            (let inputDevice = InputDevice args
                             in if inputDevice = Dev_GameController
                                then
                                  (let listViewBoundsLocal =
                                         (0, 0, round_float (lv_ActualWidth listView),
                                          round_float (lv_ActualHeight listView));
                                       listViewBounds = lv_TransformBounds listView listViewBoundsLocal;
                                       next = FindNextElement s direction listViewBounds
                                   in if is_IGettingFocusEventArgs2 args
                                      then (args\<lparr>TrySetNewFocusedElement :=
                                                   TrySetNewFocusedElement args @ [next],
                                                 Handled := True\<rparr>, s)
                                      else (args\<lparr>Handled := True\<rparr>,
                                            s\<lparr>async_SetFocus := async_SetFocus s @ [next]\<rparr>))
                                else (args\<lparr>Cancel := True, Handled := True\<rparr>, s))
                          else (args, s))
                  | None \<Rightarrow> (args, s))
               else (args, s))
         else (args, s))"

section \<open>The scroll buttons\<close>

text \<open>
  \<^verbatim>\<open>button.Click(winrt::auto_revoke, handler)\<close> subscribes to the button and gives the
  revoker of the subscription. On a null button it dereferences null.
\<close>

definition Click_auto_revoke :: "ref option \<Rightarrow> error + ref option" where
  "Click_auto_revoke button = (case button of Some b \<Rightarrow> Inr (Some b) | None \<Rightarrow> Inl null_dereference)"

definition OnScrollViewerLoaded :: "tab_view \<Rightarrow> error + tab_view" where
  "OnScrollViewerLoaded s =
     (case (case m_scrollViewer s of
              Some scrollViewer \<Rightarrow>
                (case as_class (objects s) RepeatButton
                        (sv_FindInVisualTreeByName scrollViewer ''ScrollDecreaseButton'') of
                   Inl e \<Rightarrow> Inl e
                 | Inr decreaseButton \<Rightarrow>
                     (case Click_auto_revoke decreaseButton of
                        Inl e \<Rightarrow> Inl e
                      | Inr revoker \<Rightarrow>
                          (let s = s\<lparr>m_scrollDecreaseClickRevoker := revoker\<rparr>
                           in case as_class (objects s) RepeatButton
                                     (sv_FindInVisualTreeByName scrollViewer ''ScrollIncreaseButton'') of
                                Inl e \<Rightarrow> Inl e
                              | Inr increaseButton \<Rightarrow>
                                  (case Click_auto_revoke increaseButton of
                                     Inl e \<Rightarrow> Inl e
                                   | Inr revoker \<Rightarrow> Inr (s\<lparr>m_scrollIncreaseClickRevoker := revoker\<rparr>)))))
            | None \<Rightarrow> Inr s) of
        Inl e \<Rightarrow> Inl e
      | Inr s1 \<Rightarrow> UpdateTabWidths s1)"

section \<open>A control with three tabs\<close>

text \<open>
  A concrete state to evaluate the operations on: the tabs 1, 2 and 3 are their own
  containers in the host list, every template part is resolved, the control is 300 wide
  in \<open>Equal\<close> mode and nothing is selected. The objects 8 and 9 are repeat buttons;
  every other object is plain data.
\<close>

definition example_element :: "runtime_class \<Rightarrow> element" where
  "example_element c =
     \<lparr>rtclass = c, IsEnabled = True, Visibility = Visible, IsSelected = False,
      IsClosable = True, Width = NaN, Content = None, Parent = None\<rparr>"

definition example_objects :: heap where
  "example_objects r =
     (if r = 1 \<or> r = 2 \<or> r = 3 then example_element TabViewItem
      else if r = 8 \<or> r = 9 then example_element RepeatButton
      else example_element Inspectable)"

definition example_list_view :: list_view where
  "example_list_view =
     \<lparr>lv_ContainerFromItem =
        (\<lambda>item. case item of Some r \<Rightarrow> if r = 1 \<or> r = 2 \<or> r = 3 then Some r else None | None \<Rightarrow> None),
      lv_ContainerFromIndex =
        (\<lambda>i. if i = 0 then Some 1 else if i = 1 then Some 2 else if i = 2 then Some 3 else None),
      lv_ItemFromContainer =
        (\<lambda>c. case c of Some r \<Rightarrow> if r = 1 \<or> r = 2 \<or> r = 3 then Some r else None | None \<Rightarrow> None),
      lv_IndexFromContainer =
        (\<lambda>c. case c of Some r \<Rightarrow> if r = 1 then 0 else if r = 2 then 1 else if r = 3 then 2 else - 1
                      | None \<Rightarrow> - 1),
      lv_SelectedIndex = - 1,
      lv_SelectedItem = None,
      lv_MaxWidth = 0,
      lv_HorizontalScrollBarVisibility = ScrollBar_Auto,
      lv_ActualWidth = 300,
      lv_ActualHeight = 40,
      lv_TransformBounds = (\<lambda>r. r)\<rparr>"

definition example_column :: column_definition where
  "example_column = \<lparr>cd_ActualWidth = 0, cd_MinWidth = 0, cd_MaxWidth = 0, cd_Width = FromValueAndType 1 Auto\<rparr>"

definition example_tab_view :: tab_view where
  "example_tab_view =
     \<lparr>objects = example_objects,
      m_listView = Some example_list_view,
      m_tabContainerGrid = True,
      m_leftContentColumn = Some example_column,
      m_tabColumn = Some example_column,
      m_addButtonColumn = Some example_column,
      m_rightContentColumn = Some example_column,
      m_rightContentPresenter = Some \<lparr>cp_DesiredSize_Width = 0\<rparr>,
      m_scrollViewer = None,
      m_scrollDecreaseClickRevoker = None,
      m_scrollIncreaseClickRevoker = None,
      TabItems = [1, 2, 3],
      TabItemsSource = None,
      SelectedIndex = - 1,
      SelectedItem = None,
      TabWidthMode = Equal,
      ActualWidth = 300,
      Padding_Left = 0,
      Padding_Right = 0,
      TabViewItemMinWidth = None,
      TabViewItemMaxWidth = None,
      FindNextElement = (\<lambda>d r. None),
      async_SetFocus = [],
      raised = []\<rparr>"

text \<open>
  The same control after the selected tab 3, the last one, has been removed: the host
  list knows the tabs 1 and 2 only, and the selection still points at index 2.
\<close>

definition example_two_tabs :: tab_view where
  "example_two_tabs =
     example_tab_view
       \<lparr>m_listView :=
          Some (example_list_view
                  \<lparr>lv_ContainerFromItem :=
                     (\<lambda>item. case item of Some r \<Rightarrow> if r = 1 \<or> r = 2 then Some r else None
                                         | None \<Rightarrow> None),
                   lv_ContainerFromIndex :=
                     (\<lambda>i. if i = 0 then Some 1 else if i = 1 then Some 2 else None),
                   lv_ItemFromContainer :=
                     (\<lambda>c. case c of Some r \<Rightarrow> if r = 1 \<or> r = 2 then Some r else None
                                   | None \<Rightarrow> None),
                   lv_IndexFromContainer :=
                     (\<lambda>c. case c of Some r \<Rightarrow> if r = 1 then 0 else if r = 2 then 1 else - 1
                                   | None \<Rightarrow> - 1)\<rparr>),
        TabItems := [1, 2]\<rparr>"

definition example_after_removal :: tab_view where
  "example_after_removal = example_two_tabs\<lparr>SelectedIndex := 2, SelectedItem := Some 3\<rparr>"

definition removed_last :: vector_changed_event_args where
  "removed_last = \<lparr>CollectionChange = ItemRemoved, Index = 2\<rparr>"

text \<open>The control before its template has given it a host list, with the tab 1 selected.\<close>

definition example_unloaded :: tab_view where
  "example_unloaded = example_tab_view\<lparr>m_listView := None, SelectedIndex := 0, SelectedItem := Some 1\<rparr>"

text \<open>A scroll viewer with both scroll buttons, and the control with one that lacks the first.\<close>

definition example_scroll_viewer :: scroll_viewer where
  "example_scroll_viewer =
     \<lparr>sv_FindInVisualTreeByName =
        (\<lambda>name. if name = ''ScrollDecreaseButton'' then Some 8
                 else if name = ''ScrollIncreaseButton'' then Some 9 else None),
      sv_HorizontalOffset = 0,
      sv_ScrollableWidth = 0\<rparr>"

definition example_no_decrease_button :: tab_view where
  "example_no_decrease_button =
     example_tab_view
       \<lparr>m_scrollViewer :=
          Some (example_scroll_viewer
                  \<lparr>sv_FindInVisualTreeByName :=
                     (\<lambda>name. if name = ''ScrollIncreaseButton'' then Some 9 else None)\<rparr>)\<rparr>"

definition example_drag_outside :: drag_items_completed_event_args where
  "example_drag_outside = \<lparr>Items = [2], DropResult = DataPackageOperation_None\<rparr>"

definition example_drag_moved :: drag_items_completed_event_args where
  "example_drag_moved = \<lparr>Items = [2], DropResult = 2\<rparr>"

definition example_up_arrow :: getting_focus_event_args where
  "example_up_arrow =
     \<lparr>Direction = Dir_Up, OldFocusedElement = Some 3, NewFocusedElement = Some 2,
      InputDevice = Dev_Keyboard, is_IGettingFocusEventArgs2 = True,
      TrySetNewFocusedElement = [], Cancel = False, Handled = False\<rparr>"

text \<open>The control while its host list has realized no container.\<close>

definition example_unrealized :: tab_view where
  "example_unrealized =
     example_tab_view
       \<lparr>m_listView :=
          Some (example_list_view
                  \<lparr>lv_ContainerFromItem := (\<lambda>item. None),
                   lv_ContainerFromIndex := (\<lambda>index. None)\<rparr>)\<rparr>"

text \<open>The control without its tab column part, and without its tab container grid.\<close>

definition example_no_tab_column :: tab_view where
  "example_no_tab_column = example_tab_view\<lparr>m_tabColumn := None\<rparr>"

definition example_no_grid :: tab_view where
  "example_no_grid = example_tab_view\<lparr>m_tabContainerGrid := False\<rparr>"

text \<open>Seven items in a control 453 wide; the items 4 to 7 are data without a container.\<close>

definition example_seven_tabs :: tab_view where
  "example_seven_tabs = example_tab_view\<lparr>TabItems := [1, 2, 3, 4, 5, 6, 7], ActualWidth := 453\<rparr>"

text \<open>After the removal of the last tab, with every remaining tab disabled.\<close>

definition example_all_disabled :: tab_view where
  "example_all_disabled =
     example_after_removal\<lparr>objects := (\<lambda>r. (example_objects r)\<lparr>IsEnabled := False\<rparr>)\<rparr>"

text \<open>
  The control over the data items 5, 6 and 7, whose containers in the host list are the
  tabs 1, 2 and 3; the item 6 is selected.
\<close>

definition example_data_items :: tab_view where
  "example_data_items =
     example_tab_view
       \<lparr>m_listView :=
          Some (example_list_view
                  \<lparr>lv_ContainerFromItem :=
                     (\<lambda>item. case item of
                                Some r \<Rightarrow> if r = 5 then Some 1 else if r = 6 then Some 2
                                          else if r = 7 then Some 3 else None
                              | None \<Rightarrow> None),
                   lv_ItemFromContainer :=
                     (\<lambda>c. case c of
                             Some r \<Rightarrow> if r = 1 then Some 5 else if r = 2 then Some 6
                                       else if r = 3 then Some 7 else None
                           | None \<Rightarrow> None)\<rparr>),
        TabItems := [5, 6, 7],
        SelectedIndex := 1,
        SelectedItem := Some 6\<rparr>"

text \<open>
  The control with objects of which the tab 2 shows the data object 7 as its content, and
  the framework element 12 has the tab 3 as its parent in the visual tree.
\<close>

definition example_with_content :: tab_view where
  "example_with_content =
     example_tab_view
       \<lparr>objects :=
          (\<lambda>r. if r = 2 then (example_element TabViewItem)\<lparr>Content := Some 7\<rparr>
                else if r = 12 then (example_element FrameworkElement)\<lparr>Parent := Some 3\<rparr>
                else example_objects r)\<rparr>"


definition example_many_tabs :: tab_view where
  "example_many_tabs =
     example_tab_view\<lparr>TabItems := replicate 1073741825 1, SelectedIndex := 1073741824\<rparr>"

section \<open>Vocabulary of the properties\<close>

text \<open>
  The selected tab as lines 402 to 406, 556 to 560 and 574 to 578 resolve it: the
  selected item if it is a tab itself, else its container in the host list if that is
  a tab.
\<close>

definition selected_tab :: "tab_view \<Rightarrow> ref option" where
  "selected_tab s =
     (let tvi = try_as (objects s) TabViewItem (SelectedItem s)
      in if tvi = None
         then try_as (objects s) TabViewItem (ContainerFromItem s (SelectedItem s))
         else tvi)"

text \<open>
  The test of line 292 on the container at an index: the tab there is resolved, enabled
  and visible.
\<close>

definition selectable :: "tab_view \<Rightarrow> int \<Rightarrow> bool" where
  "selectable s index =
     (case ContainerFromIndex s index of
        Some n \<Rightarrow> IsEnabled (objects s n) \<and> Visibility (objects s n) = Visible
      | None \<Rightarrow> False)"

text \<open>
  The indices of \<open>n\<close> tabs in one full pass forward from \<open>start\<close>, wrapping to 0,
  and the first selectable index on that pass.
\<close>

definition circular_order :: "nat \<Rightarrow> nat \<Rightarrow> nat list" where
  "circular_order n start = map (\<lambda>k. (start + k) mod n) [0..<n]"

definition first_selectable :: "tab_view \<Rightarrow> nat \<Rightarrow> nat option" where
  "first_selectable s start =
     find (\<lambda>i. selectable s (int i)) (circular_order (length (TabItems s)) start)"

text \<open>
  The tab the specification names after a removal, in its words: the closest enabled,
  visible tab starting at the removal index, scanning forward circularly.
\<close>

definition spec_closest_tab :: "tab_view \<Rightarrow> nat \<Rightarrow> ref option" where
  "spec_closest_tab s removedIndex =
     map_option (\<lambda>i. TabItems s ! i) (first_selectable s removedIndex)"

text \<open>
  The host list of the control's template creates its containers as \<open>TabViewItem\<close>s:
  whatever it gives for an item or an index is one.
\<close>

definition containers_are_tabs :: "tab_view \<Rightarrow> bool" where
  "containers_are_tabs s =
     (\<forall>c. ((\<exists>item. ContainerFromItem s item = Some c) \<or> (\<exists>index. ContainerFromIndex s index = Some c))
          \<longrightarrow> rtclass (objects s c) = TabViewItem)"

section \<open>Facts about the model\<close>

lemmas example_defs = example_tab_view_def example_list_view_def example_objects_def
  example_element_def example_column_def

lemma static_cast_int_small: "n < 2 ^ 31 \<Longrightarrow> static_cast_int n = int n"
  by (simp add: static_cast_int_def Let_def)

lemma cpp_rem_nonneg: "0 \<le> a \<Longrightarrow> 0 < b \<Longrightarrow> cpp_rem a b = a mod b"
  by (cases "a = 0") (simp_all add: cpp_rem_def)

lemma int32_wrap_in_range: "- (2 ^ 31) \<le> x \<Longrightarrow> x < 2 ^ 31 \<Longrightarrow> int32_wrap x = x"
  by (simp add: int32_wrap_def)

lemma round_double_0: "round_double 0 = 0"
  by (simp add: round_double_def round_to_precision_def)

lemmas rounding_defs = round_double_def round_to_precision_def binary_exponent_def
  bit_length.simps power_of_two_def round_half_even_def Let_def

text \<open>The integers of the examples are doubles; the seventh of 453 is not.\<close>

lemma round_double_values:
  "round_double 100 = 100"
  "round_double 300 = 300"
  "round_double 453 = 453"
  "round_double (453 / 7) = 4553863016068827 / 70368744177664"
  "round_double (31877041112481789 / 70368744177664) = 7969260278120447 / 17592186044416"
  by (simp_all add: rounding_defs)

lemma std_clamp_Finite:
  "lo \<le> hi \<Longrightarrow> std_clamp (Finite x) (Finite lo) (Finite hi) = Finite (max lo (min hi x))"
  by (auto simp: std_clamp_def)

subsection \<open>The item count\<close>

text \<open>
  The loop of \<^verbatim>\<open>GetItemCount\<close> adds one for every element after the first, so from 1
  it counts the elements of a source that has any, and gives 1 for an empty source.
\<close>

lemma GetItemCount_loop_eq:
  "GetItemCount_loop i iter = i + int (length iter) - (if iter = [] then 0 else 1)"
proof (induction i iter rule: GetItemCount_loop.induct)
  case (1 i iter)
  show ?case
  proof (cases "fst (MoveNext iter)")
    case True
    then show ?thesis
      using 1 by (subst GetItemCount_loop.simps) (cases iter; auto simp: MoveNext_def)
  next
    case False
    then show ?thesis
      by (subst GetItemCount_loop.simps) (cases iter; auto simp: MoveNext_def)
  qed
qed

lemma GetItemCount_source:
  "TabItemsSource s = Some (Iterable xs) \<Longrightarrow>
   GetItemCount s = (if xs = [] then 1 else int (length xs))"
  by (simp add: GetItemCount_def First_def GetItemCount_loop_eq)

lemma GetItemCount_set_SelectedIndex: "GetItemCount (set_SelectedIndex i s) = GetItemCount s"
  by (simp add: GetItemCount_def set_SelectedIndex_def OnSelectedIndexPropertyChanged_def
      UpdateSelectedIndex_def split: option.splits)

lemma SelectedIndex_set_SelectedIndex: "SelectedIndex (set_SelectedIndex i s) = i"
  by (simp add: set_SelectedIndex_def OnSelectedIndexPropertyChanged_def
      UpdateSelectedIndex_def split: option.splits)

lemma SelectNextTab_handled:
  "1 < GetItemCount s \<Longrightarrow>
   SelectNextTab increment s =
     (True, set_SelectedIndex
              (cpp_rem (int32_wrap (int32_wrap (SelectedIndex s + increment) + GetItemCount s))
                 (GetItemCount s)) s)"
  by (simp add: SelectNextTab_def Let_def)

text \<open>Without an overflow the two additions are the sum.\<close>

lemma SelectNextTab_no_overflow:
  assumes "1 < GetItemCount s"
    and "- (2 ^ 31) \<le> SelectedIndex s + increment"
    and "SelectedIndex s + increment + GetItemCount s < 2 ^ 31"
  shows "SelectNextTab increment s =
     (True, set_SelectedIndex (cpp_rem (SelectedIndex s + increment + GetItemCount s) (GetItemCount s)) s)"
proof -
  have "int32_wrap (SelectedIndex s + increment) = SelectedIndex s + increment"
    using assms by (intro int32_wrap_in_range) auto
  moreover have "int32_wrap (SelectedIndex s + increment + GetItemCount s) =
                 SelectedIndex s + increment + GetItemCount s"
    using assms by (intro int32_wrap_in_range) auto
  ultimately show ?thesis
    using assms(1) by (simp add: SelectNextTab_handled)
qed


subsection \<open>What the width computation leaves alone\<close>

lemma widthTaken_fields:
  "m_tabColumn (snd (UpdateTabWidths_widthTaken s)) = m_tabColumn s"
  "m_listView (snd (UpdateTabWidths_widthTaken s)) = m_listView s"
  "TabWidthMode (snd (UpdateTabWidths_widthTaken s)) = TabWidthMode s"
  "TabItems (snd (UpdateTabWidths_widthTaken s)) = TabItems s"
  "ActualWidth (snd (UpdateTabWidths_widthTaken s)) = ActualWidth s"
  "Padding_Left (snd (UpdateTabWidths_widthTaken s)) = Padding_Left s"
  "Padding_Right (snd (UpdateTabWidths_widthTaken s)) = Padding_Right s"
  "TabViewItemMinWidth (snd (UpdateTabWidths_widthTaken s)) = TabViewItemMinWidth s"
  "TabViewItemMaxWidth (snd (UpdateTabWidths_widthTaken s)) = TabViewItemMaxWidth s"
  "SelectedIndex (snd (UpdateTabWidths_widthTaken s)) = SelectedIndex s"
  "SelectedItem (snd (UpdateTabWidths_widthTaken s)) = SelectedItem s"
  "objects (snd (UpdateTabWidths_widthTaken s)) = objects s"
  "raised (snd (UpdateTabWidths_widthTaken s)) = raised s"
  by (simp_all add: UpdateTabWidths_widthTaken_def Let_def split: option.splits)

lemma SetHorizontalScrollBarVisibility_fields:
  "m_tabColumn (SetHorizontalScrollBarVisibility v s) = m_tabColumn s"
  "map_option lv_HorizontalScrollBarVisibility (m_listView (SetHorizontalScrollBarVisibility v s)) =
     map_option (\<lambda>_. v) (m_listView s)"
  by (simp_all add: SetHorizontalScrollBarVisibility_def split: option.splits)

lemma layout_fields:
  "objects (snd (UpdateTabWidths_layout s)) = objects s"
  "SelectedItem (snd (UpdateTabWidths_layout s)) = SelectedItem s"
  "SelectedIndex (snd (UpdateTabWidths_layout s)) = SelectedIndex s"
  "TabItems (snd (UpdateTabWidths_layout s)) = TabItems s"
  "raised (snd (UpdateTabWidths_layout s)) = raised s"
  "ContainerFromItem (snd (UpdateTabWidths_layout s)) item = ContainerFromItem s item"
  "ContainerFromIndex (snd (UpdateTabWidths_layout s)) index = ContainerFromIndex s index"
proof -
  obtain widthTaken s1 where wt: "UpdateTabWidths_widthTaken s = (widthTaken, s1)"
    by (cases "UpdateTabWidths_widthTaken s")
  then have s1: "objects s1 = objects s" "m_listView s1 = m_listView s"
    "SelectedItem s1 = SelectedItem s" "SelectedIndex s1 = SelectedIndex s"
    "TabItems s1 = TabItems s" "raised s1 = raised s"
    using widthTaken_fields [of s] by simp_all
  show "objects (snd (UpdateTabWidths_layout s)) = objects s"
    "SelectedItem (snd (UpdateTabWidths_layout s)) = SelectedItem s"
    "SelectedIndex (snd (UpdateTabWidths_layout s)) = SelectedIndex s"
    "TabItems (snd (UpdateTabWidths_layout s)) = TabItems s"
    "raised (snd (UpdateTabWidths_layout s)) = raised s"
    "ContainerFromItem (snd (UpdateTabWidths_layout s)) item = ContainerFromItem s item"
    "ContainerFromIndex (snd (UpdateTabWidths_layout s)) index = ContainerFromIndex s index"
    using wt s1
    by (simp_all add: UpdateTabWidths_layout_def Let_def SetHorizontalScrollBarVisibility_def
        ContainerFromItem_def ContainerFromIndex_def
        split: option.splits tab_view_width_mode.splits)
qed

lemma UpdateTabWidths_items_fields:
  assumes "UpdateTabWidths_items w xs s = Inr s'"
  shows "m_tabColumn s' = m_tabColumn s" and "m_listView s' = m_listView s"
    and "SelectedItem s' = SelectedItem s" and "SelectedIndex s' = SelectedIndex s"
    and "raised s' = raised s"
  using assms
  by (induction xs arbitrary: s)
     (auto simp: Let_def split: sum.splits if_splits option.splits)

lemma UpdateTabWidths_selection:
  assumes "UpdateTabWidths s = Inr s'"
  shows "SelectedItem s' = SelectedItem s" and "SelectedIndex s' = SelectedIndex s"
    and "raised s' = raised s"
proof -
  obtain tabWidth s1 where l: "UpdateTabWidths_layout s = (tabWidth, s1)"
    by (cases "UpdateTabWidths_layout s")
  with assms have "UpdateTabWidths_items tabWidth (TabItems s1) s1 = Inr s'"
    by (simp add: UpdateTabWidths_def)
  from UpdateTabWidths_items_fields [OF this] l layout_fields [of s]
  show "SelectedItem s' = SelectedItem s" and "SelectedIndex s' = SelectedIndex s"
    and "raised s' = raised s"
    by simp_all
qed

subsection \<open>When the width computation returns\<close>

lemma containers_are_tabs_cong:
  assumes "containers_are_tabs s"
    and "\<And>item. ContainerFromItem s' item = ContainerFromItem s item"
    and "\<And>index. ContainerFromIndex s' index = ContainerFromIndex s index"
    and "\<And>c. rtclass (objects s' c) = rtclass (objects s c)"
  shows "containers_are_tabs s'"
  using assms by (simp add: containers_are_tabs_def)

lemma as_class_container:
  assumes "containers_are_tabs s"
  shows "as_class (objects s) ListViewItem (ContainerFromIndex s index) = Inr (ContainerFromIndex s index)"
    and "as_class (objects s) TabViewItem (ContainerFromItem s item) = Inr (ContainerFromItem s item)"
  using assms
  by (cases "ContainerFromIndex s index"; cases "ContainerFromItem s item";
      auto simp: containers_are_tabs_def)+

lemma containers_are_tabs_Width:
  "containers_are_tabs s \<Longrightarrow>
   containers_are_tabs (s\<lparr>objects := (objects s)(t := (objects s t)\<lparr>Width := w\<rparr>)\<rparr>)"
  by (erule containers_are_tabs_cong) (simp_all add: ContainerFromItem_def ContainerFromIndex_def)

lemma UpdateTabWidths_items_returns:
  "containers_are_tabs s \<Longrightarrow> \<exists>s'. UpdateTabWidths_items w xs s = Inr s'"
proof (induction xs arbitrary: s)
  case Nil
  show ?case by simp
next
  case (Cons item items)
  show ?case
  proof (cases "try_as (objects s) TabViewItem (Some item)")
    case (Some t)
    then show ?thesis
      using Cons.IH [OF containers_are_tabs_Width [OF Cons.prems]] by (simp add: Let_def)
  next
    case None
    show ?thesis
    proof (cases "ContainerFromItem s (Some item)")
      case unresolved: None
      with None Cons.IH [OF Cons.prems] show ?thesis by (simp add: Let_def)
    next
      case (Some c)
      with Cons.prems have "rtclass (objects s c) = TabViewItem"
        by (auto simp: containers_are_tabs_def)
      with None Some Cons.IH [OF containers_are_tabs_Width [OF Cons.prems]] show ?thesis
        by (simp add: Let_def)
    qed
  qed
qed

lemma UpdateTabWidths_returns:
  assumes "containers_are_tabs s"
  shows "\<exists>s'. UpdateTabWidths s = Inr s'"
proof (cases "UpdateTabWidths_layout s")
  case (Pair tabWidth s1)
  have "containers_are_tabs (snd (UpdateTabWidths_layout s))"
    using assms by (rule containers_are_tabs_cong) (simp_all add: layout_fields)
  with Pair have "containers_are_tabs s1"
    by simp
  from UpdateTabWidths_items_returns [OF this, of tabWidth "TabItems s1"] Pair
  show ?thesis
    by (simp add: UpdateTabWidths_def)
qed

lemma example_containers_are_tabs: "containers_are_tabs example_tab_view"
  by (auto simp: containers_are_tabs_def ContainerFromItem_def ContainerFromIndex_def example_defs
      split: option.splits if_splits)

lemma example_after_removal_tabs: "containers_are_tabs example_after_removal"
  by (auto simp: containers_are_tabs_def ContainerFromItem_def ContainerFromIndex_def
      example_after_removal_def example_two_tabs_def example_defs split: option.splits if_splits)

subsection \<open>The layout in \<open>Equal\<close> mode\<close>

lemma layout_Equal:
  assumes "m_tabContainerGrid s" and "m_tabColumn s = Some col" and "TabWidthMode s = Equal"
  shows "UpdateTabWidths_layout s =
     (let availableWidth = round_double (ActualWidth s - fst (UpdateTabWidths_widthTaken s));
          tabWidth = std_clamp
                       (divide_by_size
                          (round_double (availableWidth - round_double (Padding_Left s + Padding_Right s)))
                          (length (TabItems s)))
                       (Finite (FindResource (TabViewItemMinWidth s) c_tabMinimumWidth))
                       (Finite (FindResource (TabViewItemMaxWidth s) c_tabMaximumWidth));
          scroll = double_ge (times_size tabWidth (length (TabItems s))) (Finite availableWidth)
      in (tabWidth,
          SetHorizontalScrollBarVisibility (if scroll then ScrollBar_Visible else ScrollBar_Hidden)
            ((snd (UpdateTabWidths_widthTaken s))
               \<lparr>m_tabColumn := Some (col\<lparr>cd_MaxWidth := availableWidth,
                                        cd_Width := (if scroll then FromPixels availableWidth
                                                     else FromValueAndType 1 Auto)\<rparr>)\<rparr>)))"
proof (cases "UpdateTabWidths_widthTaken s")
  case (Pair widthTaken s1)
  then have "m_tabColumn s1 = Some col" "TabWidthMode s1 = Equal" "TabItems s1 = TabItems s"
    "ActualWidth s1 = ActualWidth s" "Padding_Left s1 = Padding_Left s"
    "Padding_Right s1 = Padding_Right s" "TabViewItemMinWidth s1 = TabViewItemMinWidth s"
    "TabViewItemMaxWidth s1 = TabViewItemMaxWidth s"
    using assms widthTaken_fields [of s] by simp_all
  with Pair assms(1) show ?thesis
    by (simp add: UpdateTabWidths_layout_def Let_def)
qed

lemma example_widthTaken:
  "fst (UpdateTabWidths_widthTaken example_tab_view) = 0"
  "fst (UpdateTabWidths_widthTaken example_seven_tabs) = 0"
  by (simp_all add: UpdateTabWidths_widthTaken_def example_seven_tabs_def example_tab_view_def
      example_column_def round_double_0)

section \<open>Tab widths in \<open>Equal\<close> mode\<close>

text \<open>
  C1 as the specification states it fails when a template part of the computation is
  not resolved. Without the tab column, or without the tab container grid, the control
  in \<open>Equal\<close> mode, with three tabs and the bounds 48 and 200, computes no width:
  \<open>tabWidth\<close> stays NaN, which is not between the bounds, and the tab column, where
  there is one, keeps the width it had.
\<close>

theorem UpdateTabWidths_unresolved_column_counterexample:
  "TabWidthMode example_no_tab_column = Equal \<and>
   length (TabItems example_no_tab_column) = 3 \<and>
   FindResource (TabViewItemMinWidth example_no_tab_column) c_tabMinimumWidth = 48 \<and>
   FindResource (TabViewItemMaxWidth example_no_tab_column) c_tabMaximumWidth = 200 \<and>
   fst (UpdateTabWidths_layout example_no_tab_column) = NaN \<and>
   m_tabColumn (snd (UpdateTabWidths_layout example_no_tab_column)) = None \<and>
   TabWidthMode example_no_grid = Equal \<and>
   length (TabItems example_no_grid) = 3 \<and>
   fst (UpdateTabWidths_layout example_no_grid) = NaN \<and>
   m_tabColumn (snd (UpdateTabWidths_layout example_no_grid)) = Some example_column"
  by (simp add: UpdateTabWidths_layout_def UpdateTabWidths_widthTaken_def Let_def FindResource_def
      c_tabMinimumWidth_def c_tabMaximumWidth_def example_no_tab_column_def example_no_grid_def
      example_tab_view_def example_column_def)

text \<open>
  C1, amended. In \<open>Equal\<close> mode, with the tab container grid and the tab column
  resolved, for every tab count \<open>N \<ge> 1\<close>, every available width and configured bounds
  \<open>minTabWidth \<le> maxTabWidth\<close>, the width computation sets \<open>tabWidth\<close> to the quotient
  \<open>(availableWidth - horizontalPadding) / N\<close>, taken in double arithmetic, clamped to the
  bounds, so that \<open>minTabWidth \<le> tabWidth \<le> maxTabWidth\<close>. If the product
  \<open>tabWidth * N\<close>, taken in double arithmetic, is at least \<open>availableWidth\<close>, the width
  of the tab column is fixed to exactly \<open>availableWidth\<close> pixels and the horizontal
  scroll bar of the host list, where the host list is resolved, is made \<open>Visible\<close>;
  otherwise the column sizes automatically and the scroll bar is \<open>Hidden\<close>. The loop
  that then gives the width to the tabs leaves the column and the scroll bar as they
  are, in every run that completes.
\<close>

theorem UpdateTabWidths_Equal:
  fixes s :: tab_view
  defines "N \<equiv> length (TabItems s)"
    and "availableWidth \<equiv> round_double (ActualWidth s - fst (UpdateTabWidths_widthTaken s))"
    and "minTabWidth \<equiv> FindResource (TabViewItemMinWidth s) c_tabMinimumWidth"
    and "maxTabWidth \<equiv> FindResource (TabViewItemMaxWidth s) c_tabMaximumWidth"
    and "s1 \<equiv> snd (UpdateTabWidths_layout s)"
  assumes mode: "TabWidthMode s = Equal"
    and grid: "m_tabContainerGrid s"
    and col: "m_tabColumn s = Some tabColumn"
    and N: "1 \<le> N"
    and bounds: "minTabWidth \<le> maxTabWidth"
  shows "\<exists>tabWidth tabColumn'.
           fst (UpdateTabWidths_layout s) =
             std_clamp
               (Finite (round_double
                  (round_double (availableWidth - round_double (Padding_Left s + Padding_Right s))
                     / real N)))
               (Finite minTabWidth) (Finite maxTabWidth) \<and>
           fst (UpdateTabWidths_layout s) = Finite tabWidth \<and>
           minTabWidth \<le> tabWidth \<and> tabWidth \<le> maxTabWidth \<and>
           m_tabColumn s1 = Some tabColumn' \<and>
           (if round_double (tabWidth * real N) \<ge> availableWidth
            then cd_Width tabColumn' = FromPixels availableWidth \<and>
                 map_option lv_HorizontalScrollBarVisibility (m_listView s1) =
                   map_option (\<lambda>_. ScrollBar_Visible) (m_listView s)
            else cd_Width tabColumn' = FromValueAndType 1 Auto \<and>
                 map_option lv_HorizontalScrollBarVisibility (m_listView s1) =
                   map_option (\<lambda>_. ScrollBar_Hidden) (m_listView s)) \<and>
           (\<forall>s'. UpdateTabWidths s = Inr s' \<longrightarrow>
                 m_tabColumn s' = m_tabColumn s1 \<and> m_listView s' = m_listView s1)"
proof -
  define x where
    "x = round_double
           (round_double (availableWidth - round_double (Padding_Left s + Padding_Right s)) / real N)"
  define w where "w = max minTabWidth (min maxTabWidth x)"
  define tabColumn' where
    "tabColumn' = tabColumn\<lparr>cd_MaxWidth := availableWidth,
                    cd_Width := (if round_double (w * real N) \<ge> availableWidth
                                 then FromPixels availableWidth
                                 else FromValueAndType 1 Auto)\<rparr>"
  have quotient:
    "divide_by_size (round_double (availableWidth - round_double (Padding_Left s + Padding_Right s))) N
       = Finite x"
    using N by (simp add: divide_by_size_def x_def)
  have clamp: "std_clamp (Finite x) (Finite minTabWidth) (Finite maxTabWidth) = Finite w"
    using bounds by (simp add: std_clamp_Finite w_def)
  have layout: "UpdateTabWidths_layout s =
      (Finite w,
       SetHorizontalScrollBarVisibility
         (if round_double (w * real N) \<ge> availableWidth then ScrollBar_Visible else ScrollBar_Hidden)
         ((snd (UpdateTabWidths_widthTaken s))\<lparr>m_tabColumn := Some tabColumn'\<rparr>))"
    unfolding layout_Equal [OF grid col mode] Let_def tabColumn'_def
    using quotient clamp
    by (simp add: N_def availableWidth_def minTabWidth_def maxTabWidth_def)
  have column: "m_tabColumn s1 = Some tabColumn'"
    by (simp add: s1_def layout SetHorizontalScrollBarVisibility_fields)
  have scroll_bar: "map_option lv_HorizontalScrollBarVisibility (m_listView s1) =
             map_option (\<lambda>_. if round_double (w * real N) \<ge> availableWidth
                              then ScrollBar_Visible else ScrollBar_Hidden)
               (m_listView s)"
    by (simp add: s1_def layout SetHorizontalScrollBarVisibility_fields widthTaken_fields)
  have loop: "m_tabColumn s' = m_tabColumn s1 \<and> m_listView s' = m_listView s1"
    if run: "UpdateTabWidths s = Inr s'" for s'
  proof -
    from run layout have "UpdateTabWidths_items (Finite w) (TabItems s1) s1 = Inr s'"
      by (simp add: UpdateTabWidths_def s1_def)
    then show ?thesis
      by (simp add: UpdateTabWidths_items_fields)
  qed
  have "minTabWidth \<le> w" "w \<le> maxTabWidth"
    using bounds by (simp_all add: w_def)
  then show ?thesis
    using layout clamp column scroll_bar loop unfolding x_def
    by (intro exI [of _ w] exI [of _ tabColumn']) (simp add: tabColumn'_def)
qed

text \<open>
  Three tabs in a control 300 wide with the default bounds 48 and 200: each tab is 100
  wide, the three need the whole 300, so the column is fixed at 300 pixels and the scroll
  bar is shown; the run completes with both as computed.
\<close>

theorem UpdateTabWidths_Equal_witness:
  "fst (UpdateTabWidths_layout example_tab_view) = Finite 100 \<and>
   (\<exists>s' tabColumn'.
      UpdateTabWidths example_tab_view = Inr s' \<and>
      m_tabColumn s' = Some tabColumn' \<and>
      cd_Width tabColumn' = FromPixels 300 \<and>
      map_option lv_HorizontalScrollBarVisibility (m_listView s') = Some ScrollBar_Visible)"
proof -
  have mode: "TabWidthMode example_tab_view = Equal"
    and grid: "m_tabContainerGrid example_tab_view"
    and col: "m_tabColumn example_tab_view = Some example_column"
    and N: "1 \<le> length (TabItems example_tab_view)"
    and bounds: "FindResource (TabViewItemMinWidth example_tab_view) c_tabMinimumWidth
                 \<le> FindResource (TabViewItemMaxWidth example_tab_view) c_tabMaximumWidth"
    by (simp_all add: example_tab_view_def FindResource_def c_tabMinimumWidth_def c_tabMaximumWidth_def)
  from UpdateTabWidths_returns [OF example_containers_are_tabs]
  obtain s' where run: "UpdateTabWidths example_tab_view = Inr s'" ..
  have vals: "ActualWidth example_tab_view = 300" "length (TabItems example_tab_view) = 3"
    "Padding_Left example_tab_view = 0" "Padding_Right example_tab_view = 0"
    "FindResource (TabViewItemMinWidth example_tab_view) c_tabMinimumWidth = 48"
    "FindResource (TabViewItemMaxWidth example_tab_view) c_tabMaximumWidth = 200"
    "m_listView example_tab_view = Some example_list_view"
    by (simp_all add: example_tab_view_def FindResource_def c_tabMinimumWidth_def c_tabMaximumWidth_def)
  from UpdateTabWidths_Equal [OF mode grid col N bounds] run
  show ?thesis
    by (auto simp: vals example_widthTaken std_clamp_def round_double_0 round_double_values)
qed

text \<open>
  Seven tabs in a control 453 wide. The seventh of 453 is rounded down to a double, seven
  times that double is rounded to the double below 453, and so the column sizes
  automatically and the scroll bar is hidden.
\<close>

lemma UpdateTabWidths_seven_tabs:
  "fst (UpdateTabWidths_layout example_seven_tabs) = Finite (4553863016068827 / 70368744177664) \<and>
   map_option cd_Width (m_tabColumn (snd (UpdateTabWidths_layout example_seven_tabs))) =
     Some (FromValueAndType 1 Auto) \<and>
   map_option lv_HorizontalScrollBarVisibility (m_listView (snd (UpdateTabWidths_layout example_seven_tabs))) =
     Some ScrollBar_Hidden"
proof -
  have parts: "m_tabContainerGrid example_seven_tabs"
    "m_tabColumn example_seven_tabs = Some example_column"
    "TabWidthMode example_seven_tabs = Equal"
    by (simp_all add: example_seven_tabs_def example_tab_view_def)
  have vals: "ActualWidth example_seven_tabs = 453" "length (TabItems example_seven_tabs) = 7"
    "Padding_Left example_seven_tabs = 0" "Padding_Right example_seven_tabs = 0"
    "FindResource (TabViewItemMinWidth example_seven_tabs) c_tabMinimumWidth = 48"
    "FindResource (TabViewItemMaxWidth example_seven_tabs) c_tabMaximumWidth = 200"
    "m_listView example_seven_tabs = Some example_list_view"
    by (simp_all add: example_seven_tabs_def example_tab_view_def FindResource_def
        c_tabMinimumWidth_def c_tabMaximumWidth_def)
  show ?thesis
    unfolding layout_Equal [OF parts] Let_def vals example_widthTaken
    by (simp add: divide_by_size_def std_clamp_def round_double_0 round_double_values
        SetHorizontalScrollBarVisibility_def widthTaken_fields vals)
qed

section \<open>The tab selected after a removal\<close>

lemma wrap_step:
  assumes "p < N"
  shows "(if int p + 1 \<ge> int N then 0 else int p + 1) = int (Suc p mod N)"
  using assms by (auto simp: mod_Suc)

lemma back_at_start:
  assumes "st < N" and "k < N"
  shows "(st + Suc k) mod N = st \<longleftrightarrow> Suc k = N"
proof (cases "st + Suc k < N")
  case True
  then show ?thesis by simp
next
  case False
  then have "(st + Suc k) mod N = (st + Suc k - N) mod N"
    by (simp add: le_mod_geq)
  also have "\<dots> = st + Suc k - N"
    using assms by (intro mod_less) arith
  finally show ?thesis
    using False assms by arith
qed

text \<open>One round of the loop at an index inside the collection.\<close>

lemma OnItemsChanged_loop_unfold:
  assumes tabs: "containers_are_tabs s"
    and N: "length (TabItems s) = N"
    and p: "p < N"
  shows "OnItemsChanged_loop (int N) (int st) (int p) s =
           (if selectable s (int p) then Some (Inr (set_SelectedItem (Some (TabItems s ! p)) s))
            else if Suc p mod N \<noteq> st then OnItemsChanged_loop (int N) (int st) (int (Suc p mod N)) s
            else Some (Inr s))"
proof -
  have next_index: "(if int p + 1 \<ge> int N then 0 else int p + 1) = int (Suc p mod N)"
    by (rule wrap_step [OF p])
  have get: "GetAt (TabItems s) (int p) = Inr (TabItems s ! p)"
    using p N by (simp add: GetAt_def)
  show ?thesis
    by (subst OnItemsChanged_loop.simps)
       (simp add: as_class_container [OF tabs] selectable_def get next_index Let_def
          del: of_nat_Suc)
qed

text \<open>
  Entered \<open>k\<close> steps after the start, the loop ends, and it selects the first selectable
  index among the steps \<open>k\<close> to \<open>N - 1\<close>.
\<close>

lemma OnItemsChanged_loop_from:
  assumes tabs: "containers_are_tabs s"
    and N: "length (TabItems s) = N"
    and st: "st < N"
    and k: "k < N"
  shows "OnItemsChanged_loop (int N) (int st) (int ((st + k) mod N)) s =
           Some (Inr (case find (\<lambda>i. selectable s (int i)) (map (\<lambda>k. (st + k) mod N) [k..<N]) of
                        Some i \<Rightarrow> set_SelectedItem (Some (TabItems s ! i)) s
                      | None \<Rightarrow> s))"
  using k
proof (induction "N - k" arbitrary: k)
  case 0
  then show ?case by simp
next
  case (Suc m)
  note step = \<open>k < N\<close>
  let ?p = "(st + k) mod N"
  have p: "?p < N" using st by simp
  have upt: "[k..<N] = k # [Suc k..<N]"
    using step by (simp add: upt_conv_Cons)
  have next_p: "Suc ?p mod N = (st + Suc k) mod N"
    by (simp add: mod_Suc_eq)
  note unfold = OnItemsChanged_loop_unfold [OF tabs N p, of st, unfolded next_p]
  show ?case
  proof (cases "selectable s (int ?p)")
    case True
    then show ?thesis
      unfolding unfold upt by simp
  next
    case False
    show ?thesis
    proof (cases "Suc k = N")
      case True
      have upt1: "[k..<N] = [k]"
        unfolding True [symmetric] by simp
      have at_start: "(st + Suc k) mod N = st"
        using st True by simp
      show ?thesis
        unfolding unfold upt1 at_start using False by simp
    next
      case more: False
      then have "Suc k < N" using step by simp
      moreover have "m = N - Suc k" using Suc.hyps(2) by simp
      ultimately have IH: "OnItemsChanged_loop (int N) (int st) (int ((st + Suc k) mod N)) s =
           Some (Inr (case find (\<lambda>i. selectable s (int i)) (map (\<lambda>k. (st + k) mod N) [Suc k..<N]) of
                        Some i \<Rightarrow> set_SelectedItem (Some (TabItems s ! i)) s
                      | None \<Rightarrow> s))"
        using Suc.hyps(1) by blast
      have "(st + Suc k) mod N \<noteq> st"
        using back_at_start [OF st step] more by simp
      then show ?thesis
        unfolding unfold upt using False IH by simp
    qed
  qed
qed

lemma set_SelectedItem_fields:
  "SelectedItem (set_SelectedItem item s) = item"
  "SelectedIndex (set_SelectedItem item s) = SelectedIndex s"
  "TabItems (set_SelectedItem item s) = TabItems s"
  "ContainerFromItem (set_SelectedItem item s) x = ContainerFromItem s x"
  "ContainerFromIndex (set_SelectedItem item s) i = ContainerFromIndex s i"
  "rtclass (objects (set_SelectedItem item s) c) = rtclass (objects s c)"
  by (simp_all add: set_SelectedItem_def OnSelectedItemPropertyChanged_def UpdateSelectedItem_def
      ContainerFromItem_def ContainerFromIndex_def Let_def split: option.splits)

lemma OnItemsChanged_removed:
  assumes removed: "CollectionChange args = ItemRemoved"
    and nonempty: "TabItems s \<noteq> []"
    and size: "length (TabItems s) < 2 ^ 31"
    and index: "Index args < 2 ^ 31"
    and selection: "SelectedIndex s = - 1 \<or> SelectedIndex s = int (Index args)"
    and tabs: "containers_are_tabs s"
  shows "\<exists>s'. OnItemsChanged args s = Some (Inr s') \<and>
           (case first_selectable s (min (Index args) (length (TabItems s) - 1)) of
              Some i \<Rightarrow> SelectedItem s' = Some (TabItems s ! i)
            | None \<Rightarrow> SelectedItem s' = SelectedItem s \<and> SelectedIndex s' = SelectedIndex s)"
proof -
  define N where "N = length (TabItems s)"
  define st where "st = min (Index args) (N - 1)"
  define s1 where "s1 = (case first_selectable s st of
                           Some i \<Rightarrow> set_SelectedItem (Some (TabItems s ! i)) s
                         | None \<Rightarrow> s)"
  have N: "0 < N" "length (TabItems s) = N"
    using nonempty by (simp_all add: N_def)
  have st: "st < N"
    using N by (simp add: st_def)
  have numItems: "static_cast_int (length (TabItems s)) = int N"
    using size by (simp add: static_cast_int_small N_def)
  have Index: "static_cast_int (Index args) = int (Index args)"
    using index by (rule static_cast_int_small)
  have startIndex: "(if int (Index args) \<ge> int N then int N - 1 else int (Index args)) = int st"
    using N by (auto simp: st_def)
  have loop: "OnItemsChanged_loop (int N) (int st) (int st) s = Some (Inr s1)"
    using OnItemsChanged_loop_from [OF tabs N(2) st N(1)] st
    by (simp add: s1_def first_selectable_def circular_order_def N)
  have "containers_are_tabs s1"
    using tabs unfolding s1_def
    by (cases "first_selectable s st")
       (simp_all add: containers_are_tabs_cong [OF tabs] set_SelectedItem_fields)
  from UpdateTabWidths_returns [OF this]
  obtain s' where run: "UpdateTabWidths s1 = Inr s'" ..
  have "OnItemsChanged args s = Some (Inr s')"
    unfolding OnItemsChanged_def Let_def numItems Index startIndex loop
    using removed N(1) selection run by simp
  moreover have "case first_selectable s st of
              Some i \<Rightarrow> SelectedItem s' = Some (TabItems s ! i)
            | None \<Rightarrow> SelectedItem s' = SelectedItem s \<and> SelectedIndex s' = SelectedIndex s"
    using UpdateTabWidths_selection [OF run]
    by (simp add: s1_def set_SelectedItem_fields split: option.splits)
  ultimately show ?thesis
    unfolding st_def N_def by blast
qed

lemma example_after_removal_values:
  "min (Index removed_last) (length (TabItems example_after_removal) - 1) = 1"
  "TabItems example_after_removal = [1, 2]"
  "Index removed_last = 2"
  "CollectionChange removed_last = ItemRemoved"
  "SelectedIndex example_after_removal = 2"
  by (simp_all add: removed_last_def example_after_removal_def example_two_tabs_def
      example_tab_view_def)

lemma example_after_removal_first:
  "first_selectable example_after_removal 1 = Some 1"
  "first_selectable example_after_removal 2 = Some 0"
  by (simp_all add: first_selectable_def circular_order_def selectable_def ContainerFromIndex_def
      example_after_removal_def example_two_tabs_def example_defs numeral_2_eq_2)

lemma example_all_disabled_tabs: "containers_are_tabs example_all_disabled"
  by (auto simp: containers_are_tabs_def ContainerFromItem_def ContainerFromIndex_def
      example_all_disabled_def example_after_removal_def example_two_tabs_def example_defs
      example_element_def split: option.splits if_splits)

lemma example_all_disabled_values:
  "min (Index removed_last) (length (TabItems example_all_disabled) - 1) = 1"
  "TabItems example_all_disabled = [1, 2]"
  "SelectedIndex example_all_disabled = 2"
  "SelectedItem example_all_disabled = Some 3"
  by (simp_all add: removed_last_def example_all_disabled_def example_after_removal_def
      example_two_tabs_def example_tab_view_def)

lemma example_all_disabled_first:
  "first_selectable example_all_disabled 1 = None"
  "first_selectable example_all_disabled 2 = None"
  by (simp_all add: first_selectable_def circular_order_def selectable_def ContainerFromIndex_def
      example_all_disabled_def example_after_removal_def example_two_tabs_def example_defs
      example_element_def numeral_2_eq_2)

text \<open>
  C2 as the specification states it fails in two places. When the removed tab was the
  last one: with the tabs 1 and 2 left after the selected tab at index 2 is removed, a
  scan from the removal index that wraps to 0 reaches tab 1 first; the handler selects
  tab 2, the tab next to the removed one. When no tab qualifies: with the same two tabs
  disabled, the handler returns with the selected item still the removed tab 3 and the
  selected index still 2; the selection has not become unset.
\<close>

theorem OnItemsChanged_removed_last_counterexample:
  "map_option (map_sum id SelectedItem) (OnItemsChanged removed_last example_after_removal)
     \<noteq> Some (Inr (spec_closest_tab example_after_removal (Index removed_last))) \<and>
   spec_closest_tab example_all_disabled (Index removed_last) = None \<and>
   map_option (map_sum id (\<lambda>s'. (SelectedItem s', SelectedIndex s')))
      (OnItemsChanged removed_last example_all_disabled) = Some (Inr (Some 3, 2))"
proof -
  have "\<exists>s'. OnItemsChanged removed_last example_after_removal = Some (Inr s') \<and>
           (case first_selectable example_after_removal
                   (min (Index removed_last) (length (TabItems example_after_removal) - 1)) of
              Some i \<Rightarrow> SelectedItem s' = Some (TabItems example_after_removal ! i)
            | None \<Rightarrow> SelectedItem s' = SelectedItem example_after_removal \<and>
                      SelectedIndex s' = SelectedIndex example_after_removal)"
    by (rule OnItemsChanged_removed [OF _ _ _ _ _ example_after_removal_tabs])
       (simp_all add: example_after_removal_values)
  then obtain s' where run: "OnItemsChanged removed_last example_after_removal = Some (Inr s')"
    and "case first_selectable example_after_removal 1 of
           Some i \<Rightarrow> SelectedItem s' = Some (TabItems example_after_removal ! i)
         | None \<Rightarrow> SelectedItem s' = SelectedItem example_after_removal \<and>
                   SelectedIndex s' = SelectedIndex example_after_removal"
    unfolding example_after_removal_values(1) by blast
  then have "SelectedItem s' = Some 2"
    unfolding example_after_removal_first example_after_removal_values(2) by simp
  with run have code:
    "map_option (map_sum id SelectedItem) (OnItemsChanged removed_last example_after_removal)
       = Some (Inr (Some 2))"
    by simp
  have spec: "spec_closest_tab example_after_removal (Index removed_last) = Some 1"
    unfolding spec_closest_tab_def example_after_removal_values(3) example_after_removal_first
      example_after_removal_values(2)
    by simp
  have removed_last: "map_option (map_sum id SelectedItem) (OnItemsChanged removed_last example_after_removal)
     \<noteq> Some (Inr (spec_closest_tab example_after_removal (Index removed_last)))"
    unfolding code spec by simp
  have "\<exists>s'. OnItemsChanged removed_last example_all_disabled = Some (Inr s') \<and>
           (case first_selectable example_all_disabled
                   (min (Index removed_last) (length (TabItems example_all_disabled) - 1)) of
              Some i \<Rightarrow> SelectedItem s' = Some (TabItems example_all_disabled ! i)
            | None \<Rightarrow> SelectedItem s' = SelectedItem example_all_disabled \<and>
                      SelectedIndex s' = SelectedIndex example_all_disabled)"
    by (rule OnItemsChanged_removed [OF _ _ _ _ _ example_all_disabled_tabs])
       (simp_all add: example_all_disabled_values example_after_removal_values)
  then obtain s'' where disabled: "OnItemsChanged removed_last example_all_disabled = Some (Inr s'')"
    and "case first_selectable example_all_disabled 1 of
           Some i \<Rightarrow> SelectedItem s'' = Some (TabItems example_all_disabled ! i)
         | None \<Rightarrow> SelectedItem s'' = SelectedItem example_all_disabled \<and>
                   SelectedIndex s'' = SelectedIndex example_all_disabled"
    unfolding example_all_disabled_values(1) by blast
  then have "SelectedItem s'' = Some 3 \<and> SelectedIndex s'' = 2"
    unfolding example_all_disabled_first example_all_disabled_values by simp
  with disabled have kept:
    "map_option (map_sum id (\<lambda>s'. (SelectedItem s', SelectedIndex s')))
      (OnItemsChanged removed_last example_all_disabled) = Some (Inr (Some 3, 2))"
    by simp
  have none: "spec_closest_tab example_all_disabled (Index removed_last) = None"
    unfolding spec_closest_tab_def example_after_removal_values(3) example_all_disabled_first
    by simp
  from removed_last none kept show ?thesis
    by blast
qed

text \<open>
  C2, amended. Take a control whose host list gives only \<open>TabViewItem\<close>s as containers,
  and an item-removed notification that leaves the collection non-empty, with the size of
  the collection and the removal index below \<open>2 ^ 31\<close>. If the selected index was unset
  (-1) or equal to the removed index, the handler returns after one pass over the tabs
  that starts at the removal index, or at the last index when the removed tab was the
  last one, goes forward and wraps to 0. It sets \<open>SelectedItem\<close> to the item of the first
  index on that pass whose container is resolved, enabled and visible. If no index
  qualifies, \<open>SelectedItem\<close> and \<open>SelectedIndex\<close> keep the values they had.
\<close>

theorem OnItemsChanged_reselects:
  assumes "CollectionChange args = ItemRemoved"
    and "TabItems s \<noteq> []"
    and "length (TabItems s) < 2 ^ 31"
    and "Index args < 2 ^ 31"
    and "SelectedIndex s = - 1 \<or> SelectedIndex s = int (Index args)"
    and "containers_are_tabs s"
  shows "\<exists>s'. OnItemsChanged args s = Some (Inr s') \<and>
           (case first_selectable s (min (Index args) (length (TabItems s) - 1)) of
              Some i \<Rightarrow> SelectedItem s' = Some (TabItems s ! i)
            | None \<Rightarrow> SelectedItem s' = SelectedItem s \<and> SelectedIndex s' = SelectedIndex s)"
  using assms by (rule OnItemsChanged_removed)

theorem OnItemsChanged_reselects_witness:
  "\<exists>s'. OnItemsChanged removed_last example_after_removal = Some (Inr s') \<and>
        SelectedItem s' = Some 2"
proof -
  have "\<exists>s'. OnItemsChanged removed_last example_after_removal = Some (Inr s') \<and>
           (case first_selectable example_after_removal
                   (min (Index removed_last) (length (TabItems example_after_removal) - 1)) of
              Some i \<Rightarrow> SelectedItem s' = Some (TabItems example_after_removal ! i)
            | None \<Rightarrow> SelectedItem s' = SelectedItem example_after_removal \<and>
                      SelectedIndex s' = SelectedIndex example_after_removal)"
    by (rule OnItemsChanged_reselects [OF _ _ _ _ _ example_after_removal_tabs])
       (simp_all add: example_after_removal_values)
  then obtain s' where run: "OnItemsChanged removed_last example_after_removal = Some (Inr s')"
    and "case first_selectable example_after_removal 1 of
           Some i \<Rightarrow> SelectedItem s' = Some (TabItems example_after_removal ! i)
         | None \<Rightarrow> SelectedItem s' = SelectedItem example_after_removal \<and>
                   SelectedIndex s' = SelectedIndex example_after_removal"
    unfolding example_after_removal_values(1) by blast
  then have "SelectedItem s' = Some 2"
    unfolding example_after_removal_first example_after_removal_values(2) by simp
  with run show ?thesis by blast
qed

section \<open>Moving the selection with the keyboard\<close>

lemma example_many_tabs_count: "GetItemCount example_many_tabs = 1073741825"
  by (simp add: GetItemCount_def static_cast_int_def example_many_tabs_def example_tab_view_def)

text \<open>
  C3 as the specification states it fails from the unset selection. With three tabs and
  \<open>SelectedIndex = -1\<close>, \<^verbatim>\<open>SelectNextTab(+1)\<close> selects index 0 and
  \<^verbatim>\<open>SelectNextTab(-1)\<close> then selects index 2, not -1. It also fails where the sum of
  index, increment and count passes the greatest \<^verbatim>\<open>int\<close>: with \<open>2 ^ 30 + 1\<close> tabs and
  the last of them selected, the two calls end at index 3.
\<close>

theorem SelectNextTab_round_trip_counterexample:
  "1 < GetItemCount example_tab_view \<and>
   SelectedIndex example_tab_view = - 1 \<and>
   SelectedIndex (snd (SelectNextTab (- 1) (snd (SelectNextTab 1 example_tab_view)))) = 2 \<and>
   SelectedIndex (snd (SelectNextTab (- 1) (snd (SelectNextTab 1 example_tab_view))))
     \<noteq> SelectedIndex example_tab_view \<and>
   GetItemCount example_many_tabs = 1073741825 \<and>
   SelectedIndex example_many_tabs = 1073741824 \<and>
   SelectedIndex (snd (SelectNextTab (- 1) (snd (SelectNextTab 1 example_many_tabs)))) = 3"
proof -
  have unset: "1 < GetItemCount example_tab_view \<and>
     SelectedIndex example_tab_view = - 1 \<and>
     SelectedIndex (snd (SelectNextTab (- 1) (snd (SelectNextTab 1 example_tab_view)))) = 2"
    by (simp add: SelectNextTab_def GetItemCount_def static_cast_int_def example_tab_view_def
        cpp_rem_def int32_wrap_def set_SelectedIndex_def OnSelectedIndexPropertyChanged_def
        UpdateSelectedIndex_def)
  have last: "SelectedIndex example_many_tabs = 1073741824"
    by (simp add: example_many_tabs_def)
  have first_call: "SelectedIndex (snd (SelectNextTab 1 example_many_tabs)) = - 1073741821"
    by (simp add: SelectNextTab_handled example_many_tabs_count last SelectedIndex_set_SelectedIndex
        int32_wrap_def cpp_rem_def)
  have "GetItemCount (snd (SelectNextTab 1 example_many_tabs)) = 1073741825"
    by (simp add: SelectNextTab_handled example_many_tabs_count GetItemCount_set_SelectedIndex)
  then have "SelectedIndex (snd (SelectNextTab (- 1) (snd (SelectNextTab 1 example_many_tabs)))) = 3"
    by (simp add: SelectNextTab_handled [of "snd (SelectNextTab 1 example_many_tabs)"] first_call
        SelectedIndex_set_SelectedIndex int32_wrap_def cpp_rem_def)
  with unset last show ?thesis
    by (simp add: example_many_tabs_count)
qed

text \<open>
  C3, amended. For every tab count greater than 1 and every starting selected index
  that is the index of a tab (from 0 to the count less one), where the sum of the index,
  1 and the count is within \<^verbatim>\<open>int\<close> (less than \<open>2 ^ 31\<close>, as with any count below
  \<open>2 ^ 30\<close>), \<^verbatim>\<open>SelectNextTab(+1)\<close> followed by \<^verbatim>\<open>SelectNextTab(-1)\<close> restores
  the starting selected index.
\<close>

theorem SelectNextTab_round_trip:
  assumes "1 < GetItemCount s" and "0 \<le> SelectedIndex s" and "SelectedIndex s < GetItemCount s"
    and "SelectedIndex s + 1 + GetItemCount s < 2 ^ 31"
  shows "SelectedIndex (snd (SelectNextTab (- 1) (snd (SelectNextTab 1 s)))) = SelectedIndex s"
proof -
  let ?n = "GetItemCount s"
  let ?i = "SelectedIndex s"
  define s1 where "s1 = snd (SelectNextTab 1 s)"
  have forward: "cpp_rem (?i + 1 + ?n) ?n = (?i + 1) mod ?n"
    using assms by (subst cpp_rem_nonneg) auto
  have first_call: "SelectNextTab 1 s = (True, set_SelectedIndex ((?i + 1) mod ?n) s)"
    using assms forward by (subst SelectNextTab_no_overflow) auto
  then have s1: "GetItemCount s1 = ?n" "SelectedIndex s1 = (?i + 1) mod ?n"
    by (simp_all add: s1_def GetItemCount_set_SelectedIndex SelectedIndex_set_SelectedIndex)
  have nonneg: "0 \<le> (?i + 1) mod ?n"
    using assms(1) by simp
  have less: "(?i + 1) mod ?n \<le> ?i + 1"
    using assms(1,2) by (intro zmod_le_nonneg_dividend) auto
  have backward: "cpp_rem ((?i + 1) mod ?n + - 1 + ?n) ?n = ((?i + 1) mod ?n + - 1 + ?n) mod ?n"
    using assms(1) nonneg by (intro cpp_rem_nonneg) linarith+
  have restored: "((?i + 1) mod ?n + - 1 + ?n) mod ?n = ?i"
  proof (cases "?i + 1 = ?n")
    case True
    then have "(?i + 1) mod ?n + - 1 + ?n = ?n - 1" by simp
    moreover have "(?n - 1) mod ?n = ?n - 1"
      using assms(1) by (intro mod_pos_pos_trivial) auto
    ultimately show ?thesis using True by simp
  next
    case False
    then have "(?i + 1) mod ?n = ?i + 1" using assms by simp
    then show ?thesis using assms by simp
  qed
  have "1 < GetItemCount s1"
    using assms(1) by (simp add: s1)
  moreover have "- (2 ^ 31) \<le> SelectedIndex s1 + - 1"
    unfolding s1 using nonneg by simp
  moreover have "SelectedIndex s1 + - 1 + GetItemCount s1 < 2 ^ 31"
    unfolding s1 using less assms(4) by simp
  ultimately have "SelectNextTab (- 1) s1 =
          (True, set_SelectedIndex (cpp_rem (SelectedIndex s1 + - 1 + GetItemCount s1) (GetItemCount s1)) s1)"
    by (rule SelectNextTab_no_overflow)
  then have "SelectedIndex (snd (SelectNextTab (- 1) s1)) =
          cpp_rem ((?i + 1) mod ?n + - 1 + ?n) ?n"
    by (simp only: s1 snd_conv SelectedIndex_set_SelectedIndex)
  then show ?thesis
    unfolding s1_def backward restored .
qed

theorem SelectNextTab_round_trip_witness:
  "1 < GetItemCount (example_tab_view\<lparr>SelectedIndex := 2\<rparr>) \<and>
   SelectedIndex (snd (SelectNextTab 1 (example_tab_view\<lparr>SelectedIndex := 2\<rparr>))) = 0 \<and>
   SelectedIndex (snd (SelectNextTab (- 1) (snd (SelectNextTab 1 (example_tab_view\<lparr>SelectedIndex := 2\<rparr>))))) = 2"
proof -
  let ?s = "example_tab_view\<lparr>SelectedIndex := 2\<rparr>"
  have count: "GetItemCount ?s = 3"
    by (simp add: GetItemCount_def static_cast_int_def example_tab_view_def)
  have index: "SelectedIndex ?s = 2"
    by simp
  have "SelectedIndex (snd (SelectNextTab 1 ?s)) = 0"
    by (simp add: SelectNextTab_handled count cpp_rem_def int32_wrap_def SelectedIndex_set_SelectedIndex)
  moreover have "SelectedIndex (snd (SelectNextTab (- 1) (snd (SelectNextTab 1 ?s)))) = SelectedIndex ?s"
    by (rule SelectNextTab_round_trip) (simp_all add: count)
  ultimately show ?thesis
    by (simp add: count)
qed

text \<open>
  C9. When the collection that \<^verbatim>\<open>GetItemCount\<close> consults has at most one element (the
  bound items source if there is one, the tab items otherwise), \<^verbatim>\<open>SelectNextTab\<close>
  reports unhandled for every increment and changes nothing, the selected index included.
  A bound source that is not iterable counts as empty.
\<close>

theorem SelectNextTab_at_most_one_item:
  assumes "case TabItemsSource s of
             Some (Iterable xs) \<Rightarrow> length xs \<le> 1
           | Some NotIterable \<Rightarrow> True
           | None \<Rightarrow> length (TabItems s) \<le> 1"
  shows "SelectNextTab increment s = (False, s)"
proof -
  have "GetItemCount s \<le> 1"
  proof (cases "TabItemsSource s")
    case None
    with assms have "length (TabItems s) \<le> 1" by simp
    then have "static_cast_int (length (TabItems s)) = int (length (TabItems s))"
      by (intro static_cast_int_small) simp
    with None \<open>length (TabItems s) \<le> 1\<close> show ?thesis by (simp add: GetItemCount_def)
  next
    case (Some src)
    show ?thesis
    proof (cases src)
      case (Iterable xs)
      with Some assms have "length xs \<le> 1" by simp
      with Some Iterable show ?thesis by (simp add: GetItemCount_source)
    next
      case NotIterable
      with Some show ?thesis by (simp add: GetItemCount_def)
    qed
  qed
  then show ?thesis by (simp add: SelectNextTab_def Let_def)
qed

text \<open>One tab in the tab items; an empty bound source; a bound source of one element.\<close>

theorem SelectNextTab_at_most_one_item_witness:
  "SelectNextTab 1 (example_tab_view\<lparr>TabItems := [1]\<rparr>) = (False, example_tab_view\<lparr>TabItems := [1]\<rparr>) \<and>
   SelectNextTab (- 1) (example_tab_view\<lparr>TabItemsSource := Some (Iterable [])\<rparr>) =
     (False, example_tab_view\<lparr>TabItemsSource := Some (Iterable [])\<rparr>) \<and>
   SelectNextTab 1 (example_tab_view\<lparr>TabItemsSource := Some (Iterable [7])\<rparr>) =
     (False, example_tab_view\<lparr>TabItemsSource := Some (Iterable [7])\<rparr>)"
  using SelectNextTab_at_most_one_item [of "example_tab_view\<lparr>TabItems := [1]\<rparr>" 1]
    SelectNextTab_at_most_one_item [of "example_tab_view\<lparr>TabItemsSource := Some (Iterable [])\<rparr>" "- 1"]
    SelectNextTab_at_most_one_item [of "example_tab_view\<lparr>TabItemsSource := Some (Iterable [7])\<rparr>" 1]
  by (simp add: example_tab_view_def)




section \<open>The close command\<close>

text \<open>
  The selected item 6 of the control over data items is no tab itself; its container in
  the host list is the closable tab 2, which every other path of the control takes as the
  selected tab. \<^verbatim>\<open>RequestCloseCurrentTab\<close> casts the selected item only (line 665): the
  command is unhandled and raises nothing.
\<close>

lemma OnCtrlF4Invoked_data_item:
  "SelectedItem example_data_items = Some 6 \<and>
   selected_tab example_data_items = Some 2 \<and>
   IsClosable (objects example_data_items 2) \<and>
   OnCtrlF4Invoked example_data_items = (False, example_data_items)"
  by (simp add: OnCtrlF4Invoked_def RequestCloseCurrentTab_def selected_tab_def ContainerFromItem_def
      example_data_items_def example_defs example_element_def)

text \<open>
  C5 as the specification states it fails when the host list is not resolved. The
  selected tab exists and is closable: it is the selected item 1 itself. Ctrl+F4 reports
  handled; the control has no host list, so \<^verbatim>\<open>RequestCloseTab\<close> raises nothing.
\<close>

theorem OnCtrlF4Invoked_without_list_counterexample:
  "selected_tab example_unloaded = Some 1 \<and>
   IsClosable (objects example_unloaded 1) \<and>
   m_listView example_unloaded = None \<and>
   fst (OnCtrlF4Invoked example_unloaded) \<and>
   raised (snd (OnCtrlF4Invoked example_unloaded)) = []"
  by (simp add: OnCtrlF4Invoked_def RequestCloseCurrentTab_def RequestCloseTab_def selected_tab_def
      example_unloaded_def example_defs example_element_def)

text \<open>
  C5, amended. Where the selected item is a tab itself, or has no tab as its container in
  the host list: Ctrl+F4 reports handled if and only if a selected tab exists and is
  marked closable. In exactly that case, when the host list is resolved, the command
  raises one close-request event, which carries the host list's item for the selected
  tab and the tab, and hands the same arguments to the tab's own
  \<^verbatim>\<open>RaiseRequestClose\<close>. When the host list is not resolved, or the command is
  unhandled, it raises nothing. Nothing is stated for a selected item that is no tab and
  has a tab as its container.
\<close>

theorem OnCtrlF4Invoked_handled_and_raised:
  fixes s :: tab_view
  assumes "try_as (objects s) TabViewItem (SelectedItem s) \<noteq> None \<or>
           try_as (objects s) TabViewItem (ContainerFromItem s (SelectedItem s)) = None"
  shows "(fst (OnCtrlF4Invoked s) \<longleftrightarrow> (\<exists>t. selected_tab s = Some t \<and> IsClosable (objects s t))) \<and>
         raised (snd (OnCtrlF4Invoked s)) =
           raised s @
             (case m_listView s of
                Some listView \<Rightarrow>
                  (case selected_tab s of
                     Some t \<Rightarrow>
                       if IsClosable (objects s t)
                       then [TabCloseRequested (lv_ItemFromContainer listView (Some t)) (Some t),
                             RaiseRequestClose t (lv_ItemFromContainer listView (Some t)) (Some t)]
                       else []
                   | None \<Rightarrow> [])
              | None \<Rightarrow> [])"
proof -
  have "selected_tab s = try_as (objects s) TabViewItem (SelectedItem s)"
    using assms by (auto simp: selected_tab_def Let_def)
  then show ?thesis
    by (simp add: OnCtrlF4Invoked_def RequestCloseCurrentTab_def RequestCloseTab_def Let_def
        split: option.splits)
qed

text \<open>
  With the tab 2 selected the command is handled and raises the close request of the
  tab; with nothing selected it is unhandled and raises nothing.
\<close>

theorem OnCtrlF4Invoked_handled_and_raised_witness:
  "fst (OnCtrlF4Invoked (example_tab_view\<lparr>SelectedItem := Some 2\<rparr>)) \<and>
   raised (snd (OnCtrlF4Invoked (example_tab_view\<lparr>SelectedItem := Some 2\<rparr>))) =
     [TabCloseRequested (Some 2) (Some 2), RaiseRequestClose 2 (Some 2) (Some 2)] \<and>
   \<not> fst (OnCtrlF4Invoked example_tab_view) \<and>
   raised (snd (OnCtrlF4Invoked example_tab_view)) = []"
proof -
  let ?s = "example_tab_view\<lparr>SelectedItem := Some 2\<rparr>"
  have selected: "try_as (objects ?s) TabViewItem (SelectedItem ?s) = Some 2"
    "selected_tab ?s = Some 2"
    "IsClosable (objects ?s 2)" "m_listView ?s = Some example_list_view"
    "lv_ItemFromContainer example_list_view (Some 2) = Some 2" "raised ?s = []"
    by (simp_all add: selected_tab_def example_defs example_element_def)
  have unselected: "try_as (objects example_tab_view) TabViewItem (ContainerFromItem example_tab_view (SelectedItem example_tab_view)) = None"
    "selected_tab example_tab_view = None"
    "m_listView example_tab_view = Some example_list_view" "raised example_tab_view = []"
    by (simp_all add: selected_tab_def ContainerFromItem_def example_defs)
  have "try_as (objects ?s) TabViewItem (SelectedItem ?s) \<noteq> None \<or>
        try_as (objects ?s) TabViewItem (ContainerFromItem ?s (SelectedItem ?s)) = None"
    unfolding selected(1) by simp
  from OnCtrlF4Invoked_handled_and_raised [OF this]
  have "fst (OnCtrlF4Invoked ?s) \<and>
        raised (snd (OnCtrlF4Invoked ?s)) =
          [TabCloseRequested (Some 2) (Some 2), RaiseRequestClose 2 (Some 2) (Some 2)]"
    using selected(2-) by simp
  moreover have "try_as (objects example_tab_view) TabViewItem (SelectedItem example_tab_view) \<noteq> None \<or>
        try_as (objects example_tab_view) TabViewItem
          (ContainerFromItem example_tab_view (SelectedItem example_tab_view)) = None"
    unfolding unselected(1) by simp
  from OnCtrlF4Invoked_handled_and_raised [OF this]
  have "\<not> fst (OnCtrlF4Invoked example_tab_view) \<and>
        raised (snd (OnCtrlF4Invoked example_tab_view)) = []"
    using unselected(2-) by simp
  ultimately show ?thesis by simp
qed

section \<open>Selecting an item\<close>

text \<open>
  C6 as the specification states it fails for an item that is itself a tab. The tab 3
  is not in the collection and the host list resolves it to no container, yet setting
  \<open>SelectedItem\<close> to it writes the host list's selected item and sets the tab's
  is-selected flag: the direct cast resolves the item without asking the host list.
\<close>

theorem set_SelectedItem_stray_tab_counterexample:
  "3 \<notin> set (TabItems example_two_tabs) \<and>
   ContainerFromItem example_two_tabs (Some 3) = None \<and>
   map_option lv_SelectedItem (m_listView example_two_tabs) = Some None \<and>
   \<not> IsSelected (objects example_two_tabs 3) \<and>
   map_option lv_SelectedItem (m_listView (set_SelectedItem (Some 3) example_two_tabs)) = Some (Some 3) \<and>
   IsSelected (objects (set_SelectedItem (Some 3) example_two_tabs) 3)"
  by (simp add: set_SelectedItem_def OnSelectedItemPropertyChanged_def UpdateSelectedItem_def
      ContainerFromItem_def Let_def example_two_tabs_def example_defs)

text \<open>
  C6, amended. For every item that is not present in the tab collection and is not
  itself a tab, with a host list that resolves no container for an item outside the
  collection, setting \<open>SelectedItem\<close> to the item resolves to no container and changes
  nothing but the property itself: the host list's selected item is not written and no
  is-selected flag is set.
\<close>

theorem set_SelectedItem_absent_item:
  assumes absent: "item \<notin> set (TabItems s)"
    and no_tab: "try_as (objects s) TabViewItem (Some item) = None"
    and host: "\<forall>x. x \<notin> set (TabItems s) \<longrightarrow> ContainerFromItem s (Some x) = None"
  shows "ContainerFromItem s (Some item) = None \<and>
         set_SelectedItem (Some item) s = s\<lparr>SelectedItem := Some item\<rparr>"
proof -
  have unresolved: "ContainerFromItem s (Some item) = None"
    using absent host by simp
  then have "UpdateSelectedItem (s\<lparr>SelectedItem := Some item\<rparr>) = s\<lparr>SelectedItem := Some item\<rparr>"
    using no_tab
    by (cases "m_listView s") (simp_all add: UpdateSelectedItem_def Let_def ContainerFromItem_def)
  with unresolved show ?thesis
    by (simp add: set_SelectedItem_def OnSelectedItemPropertyChanged_def)
qed

text \<open>The data object 7 is not among the tabs 1 and 2.\<close>

theorem set_SelectedItem_absent_item_witness:
  "7 \<notin> set (TabItems example_two_tabs) \<and>
   set_SelectedItem (Some 7) example_two_tabs = example_two_tabs\<lparr>SelectedItem := Some 7\<rparr>"
proof -
  have absent: "7 \<notin> set (TabItems example_two_tabs)"
    by (simp add: example_two_tabs_def example_tab_view_def)
  have no_tab: "try_as (objects example_two_tabs) TabViewItem (Some 7) = None"
    by (simp add: example_two_tabs_def example_defs)
  have host: "\<forall>x. x \<notin> set (TabItems example_two_tabs) \<longrightarrow>
                  ContainerFromItem example_two_tabs (Some x) = None"
    by (simp add: ContainerFromItem_def example_two_tabs_def example_defs)
  from set_SelectedItem_absent_item [OF absent no_tab host] absent show ?thesis
    by simp
qed

section \<open>The end of a drag\<close>

text \<open>
  A dragged item whose container in the host list is a tab resolves to that tab, without
  the parent lookup and without the fallback scan.
\<close>

lemma FindTabViewItemFromDragItem_recognized:
  "try_as (objects s) TabViewItem (ContainerFromItem s (Some item)) = Some tab \<Longrightarrow>
   FindTabViewItemFromDragItem item s = Inr (Some tab)"
  by (simp add: FindTabViewItemFromDragItem_def Let_def)

text \<open>
  The framework element 12 has no container; the lookup takes its parent in the visual
  tree, the tab 3.
\<close>

lemma FindTabViewItemFromDragItem_parent:
  "ContainerFromItem example_with_content (Some 12) = None \<and>
   FindTabViewItemFromDragItem 12 example_with_content = Inr (Some 3)"
  by (simp add: FindTabViewItemFromDragItem_def Let_def ContainerFromItem_def
      example_with_content_def example_defs example_element_def)

text \<open>
  The data object 7 has no container and is no framework element; the fallback scan
  passes the tab 1 at index 0 and finds the object as the content of the tab 2 at index 1.
\<close>

lemma FindTabViewItemFromDragItem_fallback:
  "ContainerFromItem example_with_content (Some 7) = None \<and>
   try_as (objects example_with_content) FrameworkElement (Some 7) = None \<and>
   FindTabViewItemFromDragItem 7 example_with_content = Inr (Some 2)"
  by (simp add: FindTabViewItemFromDragItem_def Let_def ContainerFromItem_def ContainerFromIndex_def
      FindTabViewItemFromDragItem_loop.simps static_cast_int_def
      example_with_content_def example_defs example_element_def)

text \<open>
  A data object that no tab shows is looked for at every index; the scan ends and the
  lookup gives no tab.
\<close>

lemma FindTabViewItemFromDragItem_no_tab:
  "FindTabViewItemFromDragItem 13 example_with_content = Inr None"
  by (simp add: FindTabViewItemFromDragItem_def Let_def ContainerFromItem_def ContainerFromIndex_def
      FindTabViewItemFromDragItem_loop.simps static_cast_int_def
      example_with_content_def example_defs example_element_def)

text \<open>
  The fallback scan dereferences the container of every index it visits: while the host
  list has realized no container, the lookup of a dragged data item ends in a null
  dereference at index 0.
\<close>

lemma FindTabViewItemFromDragItem_unrealized_container:
  "FindTabViewItemFromDragItem 7 example_unrealized = Inl null_dereference"
  by (simp add: FindTabViewItemFromDragItem_def Let_def ContainerFromItem_def ContainerFromIndex_def
      FindTabViewItemFromDragItem_loop.simps static_cast_int_def example_unrealized_def example_defs)

text \<open>
  Where the callback carries a dragged item and the lookup of its tab returns, the
  callback raises the drag-completed event with the arguments, the item and the tab, and
  after it the dropped-outside event with the item and the tab if and only if the drop
  result is \<open>None\<close>.
\<close>

lemma OnListViewDragItemsCompleted_returns:
  assumes "GetAt (Items args) 0 = Inr item"
    and "FindTabViewItemFromDragItem item s = Inr tab"
  shows "OnListViewDragItemsCompleted args s =
           Inr (s\<lparr>raised := raised s @ TabDragCompleted args item tab #
                      (if DropResult args = DataPackageOperation_None
                       then [TabDroppedOutside item tab] else [])\<rparr>)"
  using assms by (simp add: OnListViewDragItemsCompleted_def Let_def)

text \<open>
  The tab 2 dropped outside of the tab strip, and the tab 2 moved to another place.
\<close>

lemma OnListViewDragItemsCompleted_recognized_tab:
  "OnListViewDragItemsCompleted example_drag_outside example_tab_view =
     Inr (example_tab_view
            \<lparr>raised := [TabDragCompleted example_drag_outside 2 (Some 2),
                        TabDroppedOutside 2 (Some 2)]\<rparr>) \<and>
   OnListViewDragItemsCompleted example_drag_moved example_tab_view =
     Inr (example_tab_view\<lparr>raised := [TabDragCompleted example_drag_moved 2 (Some 2)]\<rparr>)"
proof -
  have item: "GetAt (Items example_drag_outside) 0 = Inr 2"
    "GetAt (Items example_drag_moved) 0 = Inr 2"
    by (simp_all add: GetAt_def example_drag_outside_def example_drag_moved_def)
  have "try_as (objects example_tab_view) TabViewItem (ContainerFromItem example_tab_view (Some 2)) = Some 2"
    by (simp add: ContainerFromItem_def example_defs)
  then have tab: "FindTabViewItemFromDragItem 2 example_tab_view = Inr (Some 2)"
    by (rule FindTabViewItemFromDragItem_recognized)
  have results: "DropResult example_drag_outside = DataPackageOperation_None"
    "DropResult example_drag_moved \<noteq> DataPackageOperation_None"
    "raised example_tab_view = []"
    by (simp_all add: example_drag_outside_def example_drag_moved_def DataPackageOperation_None_def
        example_tab_view_def)
  from OnListViewDragItemsCompleted_returns [OF item(1) tab]
    OnListViewDragItemsCompleted_returns [OF item(2) tab]
  show ?thesis
    by (simp add: results)
qed

text \<open>
  C7 fails on the code: not every drag-completed callback raises the drag-completed
  event. The callback for the tab 2, dropped outside of the tab strip while the host
  list gives no container for the tab or for any index, raises no event: the tab has no
  container and no parent that is a tab, the fallback scan takes the container at index
  0, which is null, and \<^verbatim>\<open>tabItem.Content()\<close> (line 344) dereferences it.
\<close>

theorem OnListViewDragItemsCompleted_null_container:
  "GetAt (Items example_drag_outside) 0 = Inr 2 \<and>
   DropResult example_drag_outside = DataPackageOperation_None \<and>
   ContainerFromItem example_unrealized (Some 2) = None \<and>
   ContainerFromIndex example_unrealized 0 = None \<and>
   OnListViewDragItemsCompleted example_drag_outside example_unrealized = Inl null_dereference"
  by (simp add: OnListViewDragItemsCompleted_def GetAt_def FindTabViewItemFromDragItem_def Let_def
      ContainerFromItem_def ContainerFromIndex_def FindTabViewItemFromDragItem_loop.simps
      static_cast_int_def example_drag_outside_def example_unrealized_def example_defs
      example_element_def)

section \<open>Up and down between tabs\<close>

text \<open>
  C8. For every \<open>Up\<close> or \<open>Down\<close> focus navigation whose old and new focused elements
  are both tabs with an index in the host list of this control, and whose input device
  is not a game controller, the handler cancels the navigation and marks the event
  handled; it changes nothing else in the event and nothing in the control.
\<close>

theorem OnListViewGettingFocus_cancels:
  assumes "Direction args = Dir_Up \<or> Direction args = Dir_Down"
    and "try_as (objects s) TabViewItem (OldFocusedElement args) = Some oldItem"
    and "try_as (objects s) TabViewItem (NewFocusedElement args) = Some newItem"
    and "m_listView s = Some listView"
    and "lv_IndexFromContainer listView (Some oldItem) \<noteq> - 1"
    and "lv_IndexFromContainer listView (Some newItem) \<noteq> - 1"
    and "InputDevice args \<noteq> Dev_GameController"
  shows "OnListViewGettingFocus args s = (args\<lparr>Cancel := True, Handled := True\<rparr>, s)"
  using assms by (auto simp: OnListViewGettingFocus_def Let_def)

text \<open>The up arrow of the keyboard while focus moves from the tab at index 2 to the tab at index 1.\<close>

theorem OnListViewGettingFocus_cancels_witness:
  "lv_IndexFromContainer example_list_view (Some 3) = 2 \<and>
   lv_IndexFromContainer example_list_view (Some 2) = 1 \<and>
   OnListViewGettingFocus example_up_arrow example_tab_view =
     (example_up_arrow\<lparr>Cancel := True, Handled := True\<rparr>, example_tab_view)"
proof -
  have direction: "Direction example_up_arrow = Dir_Up \<or> Direction example_up_arrow = Dir_Down"
    and old: "try_as (objects example_tab_view) TabViewItem (OldFocusedElement example_up_arrow) = Some 3"
    and new: "try_as (objects example_tab_view) TabViewItem (NewFocusedElement example_up_arrow) = Some 2"
    and list: "m_listView example_tab_view = Some example_list_view"
    and device: "InputDevice example_up_arrow \<noteq> Dev_GameController"
    by (simp_all add: example_up_arrow_def example_defs)
  have index: "lv_IndexFromContainer example_list_view (Some 3) = 2"
    "lv_IndexFromContainer example_list_view (Some 2) = 1"
    by (simp_all add: example_list_view_def)
  then have mine: "lv_IndexFromContainer example_list_view (Some 3) \<noteq> - 1"
    "lv_IndexFromContainer example_list_view (Some 2) \<noteq> - 1"
    by simp_all
  from OnListViewGettingFocus_cancels [OF direction old new list mine device] index
  show ?thesis by simp
qed

section \<open>A scroll viewer without its buttons\<close>

text \<open>With both buttons in the scroll viewer the handler subscribes to them and returns.\<close>

lemma OnScrollViewerLoaded_both_buttons:
  "\<exists>s'. OnScrollViewerLoaded (example_tab_view\<lparr>m_scrollViewer := Some example_scroll_viewer\<rparr>) = Inr s'"
proof -
  let ?s1 = "example_tab_view\<lparr>m_scrollViewer := Some example_scroll_viewer,
               m_scrollDecreaseClickRevoker := Some 8, m_scrollIncreaseClickRevoker := Some 9\<rparr>"
  have "containers_are_tabs ?s1"
    by (rule containers_are_tabs_cong [OF example_containers_are_tabs])
       (simp_all add: ContainerFromItem_def ContainerFromIndex_def)
  from UpdateTabWidths_returns [OF this] obtain s' where "UpdateTabWidths ?s1 = Inr s'" ..
  then show ?thesis
    by (simp add: OnScrollViewerLoaded_def Click_auto_revoke_def example_scroll_viewer_def
        example_tab_view_def example_objects_def example_element_def)
qed

text \<open>
  C4 fails on the code. The scroll viewer is resolved and its visual tree has no element
  named \<^verbatim>\<open>ScrollDecreaseButton\<close>: \<^verbatim>\<open>OnScrollViewerLoaded\<close> casts the null result and
  calls \<^verbatim>\<open>Click\<close> on it without a check, a null dereference, where the specification
  says that an absent part is skipped.
\<close>

theorem OnScrollViewerLoaded_null_button:
  "map_option (\<lambda>scrollViewer. sv_FindInVisualTreeByName scrollViewer ''ScrollDecreaseButton'')
     (m_scrollViewer example_no_decrease_button) = Some None \<and>
   OnScrollViewerLoaded example_no_decrease_button = Inl null_dereference"
  by (simp add: OnScrollViewerLoaded_def example_no_decrease_button_def example_scroll_viewer_def
      example_tab_view_def Click_auto_revoke_def)

end
